theory Spec2Isabelle
  imports Complex_Main "HOL-Library.AList" "HOL-Library.Multiset"
begin

section \<open>Configuration and stored documents\<close>

text \<open>
  The bot of \<^verbatim>\<open>enhanced-file-store-bot.js\<close>: a Cloudflare worker that keeps file
  references in a key-value namespace and talks to the Telegram Bot API.
  \<^verbatim>\<open>CONFIG\<close> is the global configuration object; only the administrator list and the
  bot's user name are read by the code modelled here.
\<close>

record config =
  ADMIN_IDS :: "string list"
  BOT_USERNAME :: "string"

text \<open>
  \<^verbatim>\<open>fileData\<close> is the object built by \<^verbatim>\<open>extractFileData\<close>. Of its properties the code
  reads \<^verbatim>\<open>file_id\<close>, \<^verbatim>\<open>file_type\<close> and \<^verbatim>\<open>caption\<close>; the others (sizes, mime type,
  dimensions) are copied along and never read, and are left out. A property is
  \<open>None\<close> when the object does not have it (\<^verbatim>\<open>undefined\<close>), which is what spreading an
  absent \<^verbatim>\<open>fileData\<close> gives.

  The stored file object is \<^verbatim>\<open>{ id, ...fileData, savedBy, category, createdAt,
  accessCount: 0, lastAccessed: null }\<close>: the record extends \<open>fileData\<close>. The property
  \<^verbatim>\<open>id\<close> is the field \<open>fileId\<close> (\<open>id\<close> is the identity function of HOL). Time stamps
  are the milliseconds of \<^verbatim>\<open>Date.now()\<close>. A counter is a JavaScript number: a
  natural number here, with the addition of doubles written out where the code
  adds to it (\<open>plusOne\<close> below).
\<close>

record fileData =
  file_id :: "string option"
  file_type :: "string option"
  caption :: "string option"

record fileObject = fileData +
  fileId :: "string"
  savedBy :: "string"
  category :: "string"
  createdAt :: "nat"
  accessCount :: "nat"
  lastAccessed :: "nat option"

definition no_fileData :: "fileData" where
  "no_fileData = \<lparr>file_id = None, file_type = None, caption = None\<rparr>"

text \<open>
  A session's \<^verbatim>\<open>data\<close> is a free-form object: a finite map from property names to the
  values the handlers put there (a message id, a file id, a \<^verbatim>\<open>fileData\<close> object).
\<close>

datatype dataValue = Num int | Str string | FileData fileData

record session =
  userId :: "string"
  state :: "string"
  data :: "string \<rightharpoonup> dataValue"
  sessionCreatedAt :: "nat"
  lastActive :: "nat"

text \<open>
  The statistics document \<^verbatim>\<open>bot:stats\<close>. A JavaScript object is a list of
  properties in insertion order; \<^verbatim>\<open>users\<close> has one entry per user id (of the entry
  \<^verbatim>\<open>{ firstSeen, actions, lastSeen }\<close> the action counter is kept) and \<^verbatim>\<open>actions\<close>
  maps an action name to its count. The per-day breakdown is never read by the
  handlers and is left out.
\<close>

record botStats =
  users :: "(string \<times> nat) list"
  actions :: "(string \<times> nat) list"

section \<open>The world: key-value namespace, clock, identifiers, Telegram\<close>

text \<open>
  Every key of the namespace is one of the prefixes \<^verbatim>\<open>file:\<close>, \<^verbatim>\<open>user:files:\<close>,
  \<^verbatim>\<open>category:\<close>, \<^verbatim>\<open>session:\<close> followed by an identifier, or the key \<^verbatim>\<open>bot:stats\<close>.
  These differ in their first character, so no key of one kind is a key of another,
  and the namespace is one table per kind, indexed by what follows the prefix.
\<close>

datatype key =
  FileKey string
  | UserFilesKey string
  | CategoryKey string
  | SessionKey string
  | StatsKey

definition keyName :: "key \<Rightarrow> string" where
  "keyName k = (case k of
     FileKey i \<Rightarrow> ''file:'' @ i
   | UserFilesKey u \<Rightarrow> ''user:files:'' @ u
   | CategoryKey c \<Rightarrow> ''category:'' @ c
   | SessionKey u \<Rightarrow> ''session:'' @ u
   | StatsKey \<Rightarrow> ''bot:stats'')"

text \<open>Message texts. Emoji and Markdown are presentation; a text is what it says.\<close>

datatype label =
  ShareNo int
  | DeleteNo int
  | Previous
  | Next
  | CopyLink
  | YesDeleteIt
  | NoKeepIt
  | MyFiles
  | Statistics
  | Help

record button =
  label :: "label"
  callback_data :: "string"

type_synonym keyboard = "button list list"

datatype messageText =
  FileNotFoundOrDeleted
  | UnsupportedFileType
  | Welcome
  | NoSavedFilesYet
  | NoSavedFiles
  | YourFiles nat "(int \<times> fileObject) list"
  | YourFilesPage nat int int "(int \<times> fileObject) list"
  | FileNoLongerExists
  | FileSharingLink string
  | NoPermissionToDelete
  | AreYouSureDelete fileObject
  | FileSavedSuccessfully "string option" string
  | FileSavingCanceled
  | FileDeletedSuccessfully
  | FailedToDelete
  | ActionCanceled
  | UnknownConfirmationAction
  | YourStatistics nat nat nat
  | BotStatistics nat nat "fileObject list"
  | SorryAnErrorOccurred

text \<open>
  The calls of \<^verbatim>\<open>TelegramAPI.callMethod\<close> the handlers make, with the parameters that
  differ between them: the chat, the file handle and the caption of a delivery (\<open>None\<close>
  when the property is \<^verbatim>\<open>undefined\<close> and so left out of the JSON body), the edited
  message, the callback query and its optional text.
\<close>

datatype call =
  SendMessage int messageText "keyboard option"
  | SendDocument int "string option" "string option"
  | SendPhoto int "string option" "string option"
  | SendVideo int "string option" "string option"
  | SendAudio int "string option" "string option"
  | SendVoice int "string option" "string option"
  | SendAnimation int "string option" "string option"
  | EditMessageText int int messageText "keyboard option"
  | AnswerCallbackQuery string "string option"

text \<open>What a run does to the outside, in order: writes and deletes of keys, API calls.\<close>

datatype event = KvPut key | KvDelete key | Telegram call

text \<open>
  \<open>files\<close> is the table of the \<^verbatim>\<open>file:\<close> keys as an association list, in the order
  in which the namespace lists its keys (\<^verbatim>\<open>namespace.list\<close>); a key that is new goes to
  the end. \<open>clock\<close> gives the successive readings of \<^verbatim>\<open>Date.now()\<close>, \<open>randomIds\<close>
  the successive results of \<^verbatim>\<open>Utils.generateSecureId()\<close> and \<open>apiOk\<close> tells whether
  the n-th call of the Telegram API answers \<^verbatim>\<open>ok\<close>; \<open>ticks\<close>, \<open>drawn\<close> and \<open>called\<close>
  count how many of each were used. Reads and writes of the namespace itself do not
  fail in this model.
\<close>

record world =
  files :: "(string \<times> fileObject) list"
  userFiles :: "string \<rightharpoonup> string list"
  categories :: "string \<rightharpoonup> string list"
  sessions :: "string \<rightharpoonup> session"
  stats :: "botStats option"
  trace :: "event list"
  clock :: "nat \<Rightarrow> nat"
  ticks :: "nat"
  randomIds :: "nat \<Rightarrow> string"
  drawn :: "nat"
  apiOk :: "nat \<Rightarrow> bool"
  called :: "nat"

section \<open>Asynchronous functions\<close>

text \<open>
  An \<^verbatim>\<open>async\<close> function returns a promise that is fulfilled with a result or rejected
  with an error; awaiting a rejected promise throws. A program takes the world and
  returns the outcome and the world it leaves.
\<close>

datatype error = TypeError | ApiError

datatype 'a outcome = Ok 'a | Throw error

type_synonym 'a prog = "world \<Rightarrow> 'a outcome \<times> world"

definition ret :: "'a \<Rightarrow> 'a prog" where
  "ret x w = (Ok x, w)"

definition throw :: "error \<Rightarrow> 'a prog" where
  "throw e w = (Throw e, w)"

definition bind :: "'a prog \<Rightarrow> ('a \<Rightarrow> 'b prog) \<Rightarrow> 'b prog" where
  "bind m f w = (case m w of (Ok x, w') \<Rightarrow> f x w' | (Throw e, w') \<Rightarrow> (Throw e, w'))"

definition emit :: "event \<Rightarrow> world \<Rightarrow> world" where
  "emit e w = w\<lparr>trace := trace w @ [e]\<rparr>"

definition Date_now :: "nat prog" where
  "Date_now w = (Ok (clock w (ticks w)), w\<lparr>ticks := ticks w + 1\<rparr>)"

definition generateSecureId :: "string prog" where
  "generateSecureId w = (Ok (randomIds w (drawn w)), w\<lparr>drawn := drawn w + 1\<rparr>)"

text \<open>
  \<^verbatim>\<open>callMethod\<close>: the request is sent; when the answer is not \<^verbatim>\<open>ok\<close> (or the request
  fails) the error is logged and thrown again.
\<close>

definition callMethod :: "call \<Rightarrow> unit prog" where
  "callMethod c w =
     (let w' = (emit (Telegram c) w)\<lparr>called := called w + 1\<rparr>
      in if apiOk w (called w) then (Ok (), w') else (Throw ApiError, w'))"

section \<open>Database\<close>

definition db_get_file :: "string \<Rightarrow> fileObject option prog" where
  "db_get_file i w = (Ok (map_of (files w) i), w)"

definition db_set_file :: "string \<Rightarrow> fileObject \<Rightarrow> unit prog" where
  "db_set_file i v w = (Ok (), emit (KvPut (FileKey i)) (w\<lparr>files := AList.update i v (files w)\<rparr>))"

definition db_delete_file :: "string \<Rightarrow> unit prog" where
  "db_delete_file i w = (Ok (), emit (KvDelete (FileKey i)) (w\<lparr>files := AList.delete i (files w)\<rparr>))"

definition db_get_userFiles :: "string \<Rightarrow> string list option prog" where
  "db_get_userFiles u w = (Ok (userFiles w u), w)"

definition db_set_userFiles :: "string \<Rightarrow> string list \<Rightarrow> unit prog" where
  "db_set_userFiles u v w = (Ok (), emit (KvPut (UserFilesKey u)) (w\<lparr>userFiles := (userFiles w)(u \<mapsto> v)\<rparr>))"

definition db_get_category :: "string \<Rightarrow> string list option prog" where
  "db_get_category c w = (Ok (categories w c), w)"

definition db_set_category :: "string \<Rightarrow> string list \<Rightarrow> unit prog" where
  "db_set_category c v w = (Ok (), emit (KvPut (CategoryKey c)) (w\<lparr>categories := (categories w)(c \<mapsto> v)\<rparr>))"

definition db_get_session :: "string \<Rightarrow> session option prog" where
  "db_get_session u w = (Ok (sessions w u), w)"

definition db_set_session :: "string \<Rightarrow> session \<Rightarrow> unit prog" where
  "db_set_session u v w = (Ok (), emit (KvPut (SessionKey u)) (w\<lparr>sessions := (sessions w)(u \<mapsto> v)\<rparr>))"

definition db_get_stats :: "botStats option prog" where
  "db_get_stats w = (Ok (stats w), w)"

text \<open>\<^verbatim>\<open>listKeys(filePrefix)\<close>: the names of the \<^verbatim>\<open>file:\<close> keys, in listing order.\<close>

definition db_listKeys_file :: "string list prog" where
  "db_listKeys_file w = (Ok (map fst (files w)), w)"

text \<open>\<^verbatim>\<open>x || []\<close> on what \<^verbatim>\<open>db.get\<close> returned: an absent key reads as \<^verbatim>\<open>null\<close>.\<close>

definition orEmpty :: "'a list option \<Rightarrow> 'a list" where
  "orEmpty r = (case r of None \<Rightarrow> [] | Some xs \<Rightarrow> xs)"

section \<open>SessionManager\<close>

definition getSession :: "string \<Rightarrow> session prog" where
  "getSession uid =
     bind (db_get_session uid) (\<lambda>found.
       case found of
         Some s \<Rightarrow> ret s
       | None \<Rightarrow>
           bind Date_now (\<lambda>t1.
           bind Date_now (\<lambda>t2.
             let s = \<lparr>userId = uid, state = ''idle'', data = Map.empty,
                      sessionCreatedAt = t1, lastActive = t2\<rparr>
             in bind (db_set_session uid s) (\<lambda>_. ret s))))"

text \<open>
  \<^verbatim>\<open>updateSession\<close> is only called by \<^verbatim>\<open>setState\<close>, with the updates
  \<^verbatim>\<open>{ state, data: { ...data } }\<close>: the spread of the updates over the session
  replaces these two properties, then \<^verbatim>\<open>lastActive\<close> is set.
\<close>

definition updateSession :: "string \<Rightarrow> string \<Rightarrow> (string \<rightharpoonup> dataValue) \<Rightarrow> session prog" where
  "updateSession uid st d =
     bind (getSession uid) (\<lambda>s.
     bind Date_now (\<lambda>t.
       let updatedSession = s\<lparr>state := st, data := d, lastActive := t\<rparr>
       in bind (db_set_session uid updatedSession) (\<lambda>_. ret updatedSession)))"

definition setState :: "string \<Rightarrow> string \<Rightarrow> (string \<rightharpoonup> dataValue) \<Rightarrow> session prog" where
  "setState uid st d = updateSession uid st d"

section \<open>FileManager\<close>

definition saveFile :: "fileData \<Rightarrow> string \<Rightarrow> string option \<Rightarrow> string prog" where
  "saveFile fd uid cat =
     (let category = (case cat of None \<Rightarrow> ''general'' | Some c \<Rightarrow> c) in
      bind generateSecureId (\<lambda>i.
      bind Date_now (\<lambda>timestamp.
      bind (db_set_file i
             \<lparr>file_id = file_id fd, file_type = file_type fd, caption = caption fd,
              fileId = i, savedBy = uid, category = category, createdAt = timestamp,
              accessCount = 0, lastAccessed = None\<rparr>) (\<lambda>_.
      bind (db_get_userFiles uid) (\<lambda>uf.
      bind (db_set_userFiles uid (orEmpty uf @ [i])) (\<lambda>_.
      bind (db_get_category category) (\<lambda>cf.
      bind (db_set_category category (orEmpty cf @ [i])) (\<lambda>_.
      ret i))))))))"

text \<open>
  A \<^verbatim>\<open>fileId\<close> argument is \<open>None\<close> when the caller passes \<^verbatim>\<open>undefined\<close> (a callback
  whose data has no such part); the template literal that builds the key then
  writes it as the text \<^verbatim>\<open>undefined\<close>.
\<close>

definition str :: "string option \<Rightarrow> string" where
  "str v = (case v of None \<Rightarrow> ''undefined'' | Some s \<Rightarrow> s)"

definition getFile :: "string option \<Rightarrow> fileObject option prog" where
  "getFile i = db_get_file (str i)"

text \<open>
  \<^verbatim>\<open>(file.accessCount || 0) + 1\<close> is an addition of doubles. Below \<open>2^53\<close>
  (9007199254740992) it is exact. From there on a double holds only every second
  integer, up to \<open>2^54\<close> (18014398509481984), and the odd sum lies half way between
  two of them: it is rounded to the one whose half is even. Beyond \<open>2^54\<close> the sum is
  rounded to the count itself. So a count that has reached \<open>2^53\<close> stays there. (A
  stored count is a number of the record's JSON text, so one a double holds.)
\<close>

definition plusOne :: "nat \<Rightarrow> nat" where
  "plusOne n =
     (if n < 9007199254740992 then n + 1
      else if n < 18014398509481984 then (if even (n div 2) then n else n + 2)
      else n)"

definition trackFileAccess :: "string option \<Rightarrow> unit prog" where
  "trackFileAccess i =
     bind (getFile i) (\<lambda>found.
       case found of
         None \<Rightarrow> ret ()
       | Some f \<Rightarrow>
           bind Date_now (\<lambda>t.
             db_set_file (str i)
               (f\<lparr>accessCount := plusOne (accessCount f), lastAccessed := Some t\<rparr>)))"

definition deleteFile :: "config \<Rightarrow> string option \<Rightarrow> string \<Rightarrow> bool prog" where
  "deleteFile cfg i uid =
     bind (getFile i) (\<lambda>found.
       case found of
         None \<Rightarrow> ret False
       | Some f \<Rightarrow>
           if uid \<notin> set (ADMIN_IDS cfg) \<and> savedBy f \<noteq> uid then ret False
           else
             bind (db_delete_file (str i)) (\<lambda>_.
             bind (db_get_userFiles (savedBy f)) (\<lambda>uf.
             bind (db_set_userFiles (savedBy f) (filter (\<lambda>x. Some x \<noteq> i) (orEmpty uf))) (\<lambda>_.
             bind (db_get_category (category f)) (\<lambda>cf.
             bind (db_set_category (category f) (filter (\<lambda>x. Some x \<noteq> i) (orEmpty cf))) (\<lambda>_.
             ret True))))))"

definition getUserFiles :: "string \<Rightarrow> fileObject list prog" where
  "getUserFiles uid =
     bind (db_get_userFiles uid) (\<lambda>uf. \<lambda>w.
       (Ok (List.map_filter (\<lambda>i. map_of (files w) i) (orEmpty uf)), w))"


section \<open>Numbers and strings of JavaScript\<close>

text \<open>
  A string is the list of its characters. \<^verbatim>\<open>\s\<close> of a regular expression and the
  white space \<^verbatim>\<open>parseInt\<close> skips are, among the characters a \<open>char\<close> can hold,
  tab, line feed, vertical tab, form feed, carriage return, space and no-break space.
\<close>

definition isWhiteSpace :: "char \<Rightarrow> bool" where
  "isWhiteSpace c = ((of_char c :: nat) \<in> {9, 10, 11, 12, 13, 32, 160})"

text \<open>
  \<^verbatim>\<open>args.match(/post=(\S+)/)\<close>: the leftmost place where \<^verbatim>\<open>post=\<close> is followed by a
  character that is not white space; the group is the longest run of such characters.
\<close>

fun matchPost :: "string \<Rightarrow> string option" where
  "matchPost [] = None"
| "matchPost (c # cs) =
     (let rest = drop 5 (c # cs) in
      if take 5 (c # cs) = ''post='' \<and> rest \<noteq> [] \<and> \<not> isWhiteSpace (hd rest)
      then Some (takeWhile (\<lambda>x. \<not> isWhiteSpace x) rest)
      else matchPost cs)"

text \<open>\<^verbatim>\<open>caption || undefined\<close>: an empty or absent caption is not sent.\<close>

definition orUndefined :: "string option \<Rightarrow> string option" where
  "orUndefined c = (case c of None \<Rightarrow> None | Some s \<Rightarrow> if s = [] then None else Some s)"

text \<open>
  \<^verbatim>\<open>parseInt(s)\<close>: skip white space, read a sign, read the digits (hexadecimal
  after \<^verbatim>\<open>0x\<close>), stop at the first character that is no digit; \<open>None\<close> is \<^verbatim>\<open>NaN\<close>,
  the result when there is no digit or the argument is \<^verbatim>\<open>undefined\<close>. The value is
  the integer the digits denote: JavaScript's result as long as it is at most
  \<open>2^53\<close>; beyond that JavaScript rounds to a double, which is not modelled.
\<close>

definition digitValue :: "char \<Rightarrow> nat option" where
  "digitValue c =
     (let n = (of_char c :: nat) in
      if 48 \<le> n \<and> n \<le> 57 then Some (n - 48)
      else if 97 \<le> n \<and> n \<le> 102 then Some (n - 87)
      else if 65 \<le> n \<and> n \<le> 70 then Some (n - 55)
      else None)"

definition isDigit :: "nat \<Rightarrow> char \<Rightarrow> bool" where
  "isDigit radix c = (case digitValue c of None \<Rightarrow> False | Some d \<Rightarrow> d < radix)"

definition digitsValue :: "nat \<Rightarrow> string \<Rightarrow> nat" where
  "digitsValue radix ds = foldl (\<lambda>acc c. acc * radix + (case digitValue c of None \<Rightarrow> 0 | Some d \<Rightarrow> d)) 0 ds"

definition parseInt :: "string option \<Rightarrow> int option" where
  "parseInt v =
     (case v of
        None \<Rightarrow> None
      | Some s \<Rightarrow>
          (let s1 = dropWhile isWhiteSpace s;
               negative = (take 1 s1 = ''-'');
               s2 = (if take 1 s1 = ''-'' \<or> take 1 s1 = ''+'' then drop 1 s1 else s1);
               hex = (take 2 s2 = ''0x'' \<or> take 2 s2 = ''0X'');
               radix = (if hex then 16 else 10);
               s3 = (if hex then drop 2 s2 else s2);
               ds = takeWhile (isDigit radix) s3
           in if ds = [] then None
              else Some (if negative then - int (digitsValue radix ds) else int (digitsValue radix ds))))"

text \<open>
  \<^verbatim>\<open>n.toString()\<close> and \<^verbatim>\<open>`${n}`\<close> of an integer: its decimal digits. This is
  JavaScript's text for the integers up to \<open>2^53\<close>; a larger number is printed with
  the digits of its double, and from \<open>10^21\<close> on with an exponent, which is not
  modelled.
\<close>

fun natToString :: "nat \<Rightarrow> string" where
  "natToString n =
     (if n < 10 then [''0123456789'' ! n]
      else natToString (n div 10) @ [''0123456789'' ! (n mod 10)])"

definition toString :: "int \<Rightarrow> string" where
  "toString n = (if n < 0 then ''-'' @ natToString (nat (- n)) else natToString (nat n))"

text \<open>
  \<^verbatim>\<open>xs.slice(start, end)\<close>: a negative index counts from the end, and both are
  clamped to the array.
\<close>

definition slice :: "'a list \<Rightarrow> int \<Rightarrow> int \<Rightarrow> 'a list" where
  "slice xs start end' =
     (let n = int (length xs);
          k = (if start < 0 then max (n + start) 0 else min start n);
          final = (if end' < 0 then max (n + end') 0 else min end' n)
      in take (nat (final - k)) (drop (nat k) xs))"

text \<open>\<^verbatim>\<open>params[i]\<close>: \<^verbatim>\<open>undefined\<close> past the end of the array.\<close>

definition param :: "string list \<Rightarrow> nat \<Rightarrow> string option" where
  "param ps i = (if i < length ps then Some (ps ! i) else None)"

text \<open>
  \<^verbatim>\<open>data.split(':')\<close>: the parts of the callback data between the colons; the first
  is the action and the others are the parameters of its handler.
\<close>

fun splitOn :: "char \<Rightarrow> string \<Rightarrow> string list" where
  "splitOn c [] = [[]]"
| "splitOn c (x # xs) =
     (if x = c then [] # splitOn c xs
      else (case splitOn c xs of [] \<Rightarrow> [[x]] | y # ys \<Rightarrow> (x # y) # ys))"

section \<open>TelegramAPI\<close>

definition sendMessage :: "int \<Rightarrow> messageText \<Rightarrow> keyboard option \<Rightarrow> unit prog" where
  "sendMessage chatId txt markup = callMethod (SendMessage chatId txt markup)"

definition sendDocument :: "int \<Rightarrow> string option \<Rightarrow> string option \<Rightarrow> unit prog" where
  "sendDocument chatId f cap = callMethod (SendDocument chatId f cap)"

definition sendPhoto :: "int \<Rightarrow> string option \<Rightarrow> string option \<Rightarrow> unit prog" where
  "sendPhoto chatId f cap = callMethod (SendPhoto chatId f cap)"

definition sendVideo :: "int \<Rightarrow> string option \<Rightarrow> string option \<Rightarrow> unit prog" where
  "sendVideo chatId f cap = callMethod (SendVideo chatId f cap)"

definition sendAudio :: "int \<Rightarrow> string option \<Rightarrow> string option \<Rightarrow> unit prog" where
  "sendAudio chatId f cap = callMethod (SendAudio chatId f cap)"

definition editMessageText :: "int \<Rightarrow> int \<Rightarrow> messageText \<Rightarrow> keyboard option \<Rightarrow> unit prog" where
  "editMessageText chatId messageId txt markup = callMethod (EditMessageText chatId messageId txt markup)"

definition answerCallbackQuery :: "string \<Rightarrow> string option \<Rightarrow> unit prog" where
  "answerCallbackQuery queryId txt = callMethod (AnswerCallbackQuery queryId txt)"

section \<open>CommandHandler\<close>

text \<open>
  Of an incoming message the handlers read \<^verbatim>\<open>message.chat.id\<close> and
  \<^verbatim>\<open>String(message.from.id)\<close>; of a callback query \<^verbatim>\<open>query.id\<close>,
  \<^verbatim>\<open>String(query.from.id)\<close>, \<^verbatim>\<open>query.message.chat.id\<close> and
  \<^verbatim>\<open>query.message.message_id\<close>. The Bot API sends all of them with every message and
  with every callback query of a button under a message of the bot.
\<close>

record message =
  chat_id :: "int"
  from_id :: "string"

record callbackQuery =
  query_id :: "string"
  query_from_id :: "string"
  query_chat_id :: "int"
  query_message_id :: "int"

definition isAdmin :: "config \<Rightarrow> string \<Rightarrow> bool" where
  "isAdmin cfg uid = (uid \<in> set (ADMIN_IDS cfg))"

definition shareLink :: "config \<Rightarrow> string \<Rightarrow> string" where
  "shareLink cfg i = ''https://t.me/'' @ BOT_USERNAME cfg @ ''?start=post='' @ i"

definition welcomeKeyboard :: "keyboard" where
  "welcomeKeyboard =
     [[\<lparr>label = MyFiles, callback_data = ''file:list:1''\<rparr>,
       \<lparr>label = Statistics, callback_data = ''stats:view''\<rparr>],
      [\<lparr>label = Help, callback_data = ''help:view''\<rparr>]]"

text \<open>
  \<^verbatim>\<open>handleStart\<close>. The \<^verbatim>\<open>switch\<close> returns the promise of the API call without
  awaiting it, so the \<^verbatim>\<open>catch\<close> around it never runs: the outcome of the call is the
  outcome of the handler.
\<close>

definition handleStart :: "config \<Rightarrow> message \<Rightarrow> string \<Rightarrow> unit prog" where
  "handleStart cfg msg args =
     (case matchPost args of
        Some postId \<Rightarrow>
          bind (getFile (Some postId)) (\<lambda>found.
            case found of
              None \<Rightarrow> sendMessage (chat_id msg) FileNotFoundOrDeleted None
            | Some f \<Rightarrow>
                bind (trackFileAccess (Some postId)) (\<lambda>_.
                  let cap = orUndefined (caption f) in
                  if file_type f = Some ''document'' then sendDocument (chat_id msg) (file_id f) cap
                  else if file_type f = Some ''photo'' then sendPhoto (chat_id msg) (file_id f) cap
                  else if file_type f = Some ''video'' then sendVideo (chat_id msg) (file_id f) cap
                  else if file_type f = Some ''audio'' then sendAudio (chat_id msg) (file_id f) cap
                  else if file_type f = Some ''voice'' then callMethod (SendVoice (chat_id msg) (file_id f) cap)
                  else if file_type f = Some ''animation'' then callMethod (SendAnimation (chat_id msg) (file_id f) cap)
                  else sendMessage (chat_id msg) UnsupportedFileType None))
      | None \<Rightarrow> sendMessage (chat_id msg) Welcome (Some welcomeKeyboard))"

text \<open>
  The page of a file list: the files of the page with their numbers, the two action
  buttons of each, and the row of pagination buttons when it is not empty.
  \<^verbatim>\<open>sendFileListPage\<close> and the \<^verbatim>\<open>list\<close> action of \<^verbatim>\<open>handleFileCallback\<close> build them
  with the same statements.
\<close>

definition pageFiles :: "fileObject list \<Rightarrow> int \<Rightarrow> int \<Rightarrow> (int \<times> fileObject) list" where
  "pageFiles fs page pageSize =
     (let startIdx = (page - 1) * pageSize;
          endIdx = min (startIdx + pageSize) (int (length fs));
          shown = slice fs startIdx endIdx
      in map (\<lambda>(idx, f). (startIdx + int idx + 1, f)) (enumerate 0 shown))"

definition paginationRow :: "int \<Rightarrow> int \<Rightarrow> button list" where
  "paginationRow page totalPages =
     (if page > 1 then [\<lparr>label = Previous, callback_data = ''page:files:'' @ toString (page - 1)\<rparr>] else [])
     @ (if page < totalPages then [\<lparr>label = Next, callback_data = ''page:files:'' @ toString (page + 1)\<rparr>] else [])"

definition pageKeyboard :: "(int \<times> fileObject) list \<Rightarrow> int \<Rightarrow> int \<Rightarrow> keyboard" where
  "pageKeyboard shown page totalPages =
     map (\<lambda>(n, f). [\<lparr>label = ShareNo n, callback_data = ''file:share:'' @ fileId f\<rparr>,
                     \<lparr>label = DeleteNo n, callback_data = ''file:delete:'' @ fileId f\<rparr>]) shown
     @ (if paginationRow page totalPages \<noteq> [] then [paginationRow page totalPages] else [])"

text \<open>\<^verbatim>\<open>Math.ceil(files.length / pageSize)\<close>.\<close>

definition totalPagesOf :: "nat \<Rightarrow> nat \<Rightarrow> int" where
  "totalPagesOf n pageSize = \<lceil>real n / real pageSize\<rceil>"

definition sendFileListPage :: "int \<Rightarrow> fileObject list \<Rightarrow> int \<Rightarrow> int \<Rightarrow> int \<Rightarrow> unit prog" where
  "sendFileListPage chatId fs page pageSize totalPages =
     sendMessage chatId (YourFiles (length fs) (pageFiles fs page pageSize))
       (Some (pageKeyboard (pageFiles fs page pageSize) page totalPages))"

definition handleFiles :: "message \<Rightarrow> unit prog" where
  "handleFiles msg =
     bind (getUserFiles (from_id msg)) (\<lambda>fs.
       if length fs = 0 then sendMessage (chat_id msg) NoSavedFilesYet None
       else sendFileListPage (chat_id msg) fs 1 5 (totalPagesOf (length fs) 5))"

text \<open>
  \<^verbatim>\<open>handleStats\<close>. The loop over \<^verbatim>\<open>files.slice(0, 10)\<close> reads each listed key and keeps
  the file when \<^verbatim>\<open>file && file.accessCount\<close> holds: when it exists and its count is not
  zero. \<^verbatim>\<open>Array.prototype.sort\<close> is stable; the comparison orders by
  \<^verbatim>\<open>accessCount\<close>, largest first. The sum of the action counts is JavaScript's as
  long as it stays below \<open>2^53\<close>.
\<close>

primrec collectPopular :: "string list \<Rightarrow> fileObject list \<Rightarrow> fileObject list prog" where
  "collectPopular [] = (\<lambda>popularFiles. ret popularFiles)"
| "collectPopular (k # ks) = (\<lambda>popularFiles.
     bind (db_get_file k) (\<lambda>found.
       case found of
         None \<Rightarrow> collectPopular ks popularFiles
       | Some f \<Rightarrow>
           if accessCount f \<noteq> 0 then collectPopular ks (popularFiles @ [f])
           else collectPopular ks popularFiles))"

definition getStats :: "botStats prog" where
  "getStats =
     bind db_get_stats (\<lambda>found.
       ret (case found of None \<Rightarrow> \<lparr>users = [], actions = []\<rparr> | Some st \<Rightarrow> st))"

definition handleStats :: "config \<Rightarrow> message \<Rightarrow> unit prog" where
  "handleStats cfg msg =
     (if \<not> isAdmin cfg (from_id msg) then
        bind (getUserFiles (from_id msg)) (\<lambda>mine.
        bind (getSession (from_id msg)) (\<lambda>s.
          sendMessage (chat_id msg)
            (YourStatistics (length mine) (sessionCreatedAt s) (lastActive s)) None))
      else
        bind getStats (\<lambda>st.
          let totalUsers = length (map fst (users st));
              totalActions = sum_list (map snd (actions st))
          in
          bind db_listKeys_file (\<lambda>keys.
          bind (collectPopular (slice keys 0 10) []) (\<lambda>popularFiles.
            let sorted = sort_key (\<lambda>f. - int (accessCount f)) popularFiles;
                top = slice sorted 0 5
            in sendMessage (chat_id msg) (BotStatistics totalUsers totalActions top) None))))"

subsection \<open>Callback handlers\<close>

text \<open>
  \<^verbatim>\<open>params\<close> is the array of the parts of the callback data after the action.
  \<^verbatim>\<open>handleFileCallback\<close> passes \<^verbatim>\<open>[fileId]\<close> on to \<^verbatim>\<open>handleDeleteCallback\<close>, which reads
  \<^verbatim>\<open>params[0]\<close> only: an \<^verbatim>\<open>undefined\<close> element reads as the empty array does.
\<close>

definition deleteKeyboard :: "string option \<Rightarrow> keyboard" where
  "deleteKeyboard i =
     [[\<lparr>label = YesDeleteIt, callback_data = ''confirm:delete:'' @ str i\<rparr>,
       \<lparr>label = NoKeepIt, callback_data = ''confirm:cancel''\<rparr>]]"

definition handleDeleteCallback :: "config \<Rightarrow> callbackQuery \<Rightarrow> string list \<Rightarrow> unit prog" where
  "handleDeleteCallback cfg query params =
     (let i = param params 0 in
      bind (answerCallbackQuery (query_id query) None) (\<lambda>_.
      bind (getFile i) (\<lambda>found.
        case found of
          None \<Rightarrow>
            editMessageText (query_chat_id query) (query_message_id query) FileNoLongerExists None
        | Some f \<Rightarrow>
            if \<not> isAdmin cfg (query_from_id query) \<and> savedBy f \<noteq> query_from_id query
            then sendMessage (query_chat_id query) NoPermissionToDelete None
            else editMessageText (query_chat_id query) (query_message_id query)
                   (AreYouSureDelete f) (Some (deleteKeyboard i)))))"

definition handleFileCallback :: "config \<Rightarrow> callbackQuery \<Rightarrow> string list \<Rightarrow> unit prog" where
  "handleFileCallback cfg query params =
     (let action = param params 0; i = param params 1 in
      bind (answerCallbackQuery (query_id query) None) (\<lambda>_.
        if action = Some ''share'' then
          bind (getFile i) (\<lambda>found.
            case found of
              None \<Rightarrow>
                editMessageText (query_chat_id query) (query_message_id query) FileNoLongerExists None
            | Some f \<Rightarrow>
                sendMessage (query_chat_id query) (FileSharingLink (shareLink cfg (str i))) None)
        else if action = Some ''delete'' then
          handleDeleteCallback cfg query (case i of None \<Rightarrow> [] | Some x \<Rightarrow> [x])
        else if action = Some ''list'' then
          (let page = (case parseInt (param params 1) of None \<Rightarrow> 1 | Some n \<Rightarrow> if n = 0 then 1 else n) in
           bind (getUserFiles (query_from_id query)) (\<lambda>fs.
             if length fs = 0 then
               editMessageText (query_chat_id query) (query_message_id query) NoSavedFiles None
             else
               editMessageText (query_chat_id query) (query_message_id query)
                 (YourFilesPage (length fs) page (totalPagesOf (length fs) 5) (pageFiles fs page 5))
                 (Some (pageKeyboard (pageFiles fs page 5) page (totalPagesOf (length fs) 5)))))
        else answerCallbackQuery (query_id query) (Some ''Unknown file action.'')))"

definition handlePageCallback :: "config \<Rightarrow> callbackQuery \<Rightarrow> string list \<Rightarrow> unit prog" where
  "handlePageCallback cfg query params =
     (let listType = param params 0; pageStr = param params 1; page = parseInt pageStr in
      case page of
        None \<Rightarrow> answerCallbackQuery (query_id query) (Some ''Invalid page number.'')
      | Some n \<Rightarrow>
          if n < 1 then answerCallbackQuery (query_id query) (Some ''Invalid page number.'')
          else
            bind (answerCallbackQuery (query_id query) None) (\<lambda>_.
              if listType = Some ''files'' then handleFileCallback cfg query [''list'', toString n]
              else answerCallbackQuery (query_id query) (Some ''Unknown list type.'')))"

text \<open>
  \<^verbatim>\<open>const { fileData } = session.data\<close>: the \<^verbatim>\<open>fileData\<close> property of the session's
  data; spreading anything else than such an object adds none of the properties
  modelled.
\<close>

definition fileDataOf :: "(string \<rightharpoonup> dataValue) \<Rightarrow> fileData" where
  "fileDataOf d = (case d ''fileData'' of Some (FileData fd) \<Rightarrow> fd | _ \<Rightarrow> no_fileData)"

definition handleCategoryCallback :: "config \<Rightarrow> callbackQuery \<Rightarrow> string list \<Rightarrow> unit prog" where
  "handleCategoryCallback cfg query params =
     (let category = param params 0 in
      bind (getSession (query_from_id query)) (\<lambda>s.
        if state s \<noteq> ''awaiting_file_category''
        then answerCallbackQuery (query_id query) (Some ''This action is no longer valid.'')
        else
          bind (answerCallbackQuery (query_id query) None) (\<lambda>_.
            if category = Some ''cancel'' then
              bind (setState (query_from_id query) ''idle'' Map.empty) (\<lambda>_.
                editMessageText (query_chat_id query) (query_message_id query) FileSavingCanceled None)
            else
              bind (saveFile (fileDataOf (data s)) (query_from_id query) category) (\<lambda>i.
              bind (setState (query_from_id query) ''idle'' Map.empty) (\<lambda>_.
                editMessageText (query_chat_id query) (query_message_id query)
                  (FileSavedSuccessfully category (shareLink cfg i))
                  (Some [[\<lparr>label = CopyLink, callback_data = ''file:share:'' @ i\<rparr>]]))))))"

definition handleConfirmCallback :: "config \<Rightarrow> callbackQuery \<Rightarrow> string list \<Rightarrow> unit prog" where
  "handleConfirmCallback cfg query params =
     (let action = param params 0; actionParams = drop 1 params in
      bind (answerCallbackQuery (query_id query) None) (\<lambda>_.
        if action = Some ''delete'' then
          bind (deleteFile cfg (param actionParams 0) (query_from_id query)) (\<lambda>deleted.
            if deleted
            then editMessageText (query_chat_id query) (query_message_id query) FileDeletedSuccessfully None
            else editMessageText (query_chat_id query) (query_message_id query) FailedToDelete None)
        else if action = Some ''cancel'' then
          editMessageText (query_chat_id query) (query_message_id query) ActionCanceled None
        else
          editMessageText (query_chat_id query) (query_message_id query) UnknownConfirmationAction None))"

text \<open>
  \<^verbatim>\<open>this.callbackHandlers[action]\<close>. The table is a plain object with the five
  recognized actions as its own properties. A name that is none of them but a
  property of \<^verbatim>\<open>Object.prototype\<close> (\<^verbatim>\<open>constructor\<close>, \<^verbatim>\<open>toString\<close>, ...) finds that
  inherited property, which is not \<^verbatim>\<open>undefined\<close>; every other name finds nothing.
\<close>

datatype property =
  Handler "callbackQuery \<Rightarrow> string list \<Rightarrow> unit prog"
  | Inherited
  | Undefined

definition objectPrototypeNames :: "string list" where
  "objectPrototypeNames =
     [''constructor'', ''__defineGetter__'', ''__defineSetter__'', ''hasOwnProperty'',
      ''__lookupGetter__'', ''__lookupSetter__'', ''isPrototypeOf'', ''propertyIsEnumerable'',
      ''toString'', ''valueOf'', ''__proto__'', ''toLocaleString'']"

definition callbackHandlers :: "config \<Rightarrow> string \<Rightarrow> property" where
  "callbackHandlers cfg action =
     (if action = ''file'' then Handler (handleFileCallback cfg)
      else if action = ''page'' then Handler (handlePageCallback cfg)
      else if action = ''category'' then Handler (handleCategoryCallback cfg)
      else if action = ''delete'' then Handler (handleDeleteCallback cfg)
      else if action = ''confirm'' then Handler (handleConfirmCallback cfg)
      else if action \<in> set objectPrototypeNames then Inherited
      else Undefined)"

section \<open>TelegramBot and the HTTP entry point\<close>

text \<open>
  The body of a request as \<^verbatim>\<open>request.json()\<close> parses it: \<^verbatim>\<open>null\<close>, another value
  without properties of its own interest (a number, a string, a boolean), or an
  object with its \<^verbatim>\<open>message\<close> and \<^verbatim>\<open>callback_query\<close> properties. \<open>json\<close> of a request is
  \<open>None\<close> when the body does not parse.

  \<^verbatim>\<open>TelegramBot\<close> holds the \<^verbatim>\<open>CommandHandler\<close> it was built with; \<^verbatim>\<open>processUpdate\<close> hands
  the message or the callback query to it.
\<close>

datatype update = Null | Primitive | Object "message option" "callbackQuery option"

record commandHandler =
  processMessage :: "message \<Rightarrow> unit prog"
  processCallbackQuery :: "callbackQuery \<Rightarrow> unit prog"

record request =
  http_method :: "string"
  json :: "update option"

datatype response = Response string nat

text \<open>
  \<^verbatim>\<open>processUpdate\<close> is \<^verbatim>\<open>try { ... } catch (error) { ... }\<close>. Each block either throws
  (\<open>Inl\<close>) while it runs, or returns a promise (\<open>Inr\<close>). Reading a property of
  \<^verbatim>\<open>null\<close> throws a \<^verbatim>\<open>TypeError\<close>. The promise of the handler is returned without
  \<^verbatim>\<open>await\<close>: it is not run inside the \<^verbatim>\<open>try\<close>, and when it is rejected the \<^verbatim>\<open>catch\<close>
  does not see it.
\<close>

definition processUpdate_try :: "commandHandler \<Rightarrow> update \<Rightarrow> error + unit prog" where
  "processUpdate_try h u =
     (case u of
        Null \<Rightarrow> Inl TypeError
      | Primitive \<Rightarrow> Inr (ret ())
      | Object (Some m) _ \<Rightarrow> Inr (processMessage h m)
      | Object None (Some q) \<Rightarrow> Inr (processCallbackQuery h q)
      | Object None None \<Rightarrow> Inr (ret ()))"

definition processUpdate_catch :: "update \<Rightarrow> error + unit prog" where
  "processUpdate_catch u =
     (case u of
        Null \<Rightarrow> Inl TypeError
      | Primitive \<Rightarrow> Inr (ret ())
      | Object (Some m) _ \<Rightarrow> Inr (sendMessage (chat_id m) SorryAnErrorOccurred None)
      | Object None (Some q) \<Rightarrow>
          Inr (answerCallbackQuery (query_id q)
                 (Some ''Sorry, an error occurred while processing your request.''))
      | Object None None \<Rightarrow> Inr (ret ()))"

definition processUpdate :: "commandHandler \<Rightarrow> update \<Rightarrow> unit prog" where
  "processUpdate h u =
     (case processUpdate_try h u of
        Inr promise \<Rightarrow> promise
      | Inl e \<Rightarrow>
          (case processUpdate_catch u of
             Inr promise \<Rightarrow> promise
           | Inl e' \<Rightarrow> throw e'))"

text \<open>
  \<^verbatim>\<open>fetch\<close>: the response of the worker, or the error it throws when the awaited
  \<^verbatim>\<open>processUpdate\<close> is rejected. \<^verbatim>\<open>new Response("OK")\<close> has status 200.
\<close>

definition fetch :: "commandHandler \<Rightarrow> request \<Rightarrow> response prog" where
  "fetch h req =
     (if http_method req \<noteq> ''POST'' then ret (Response ''Method Not Allowed'' 405)
      else
        case json req of
          None \<Rightarrow> ret (Response ''Invalid Request Body'' 400)
        | Some u \<Rightarrow> bind (processUpdate h u) (\<lambda>_. ret (Response ''OK'' 200)))"

section \<open>What the specification says, in its own words\<close>

text \<open>
  The specification's retrieval step delivers an attachment by "the Messenger
  operation matching kind (document/photo/video/audio/voice/animation)".
\<close>

definition deliveryOperation :: "string \<Rightarrow> (int \<Rightarrow> string option \<Rightarrow> string option \<Rightarrow> call) option" where
  "deliveryOperation kind =
     (if kind = ''document'' then Some SendDocument
      else if kind = ''photo'' then Some SendPhoto
      else if kind = ''video'' then Some SendVideo
      else if kind = ''audio'' then Some SendAudio
      else if kind = ''voice'' then Some SendVoice
      else if kind = ''animation'' then Some SendAnimation
      else None)"

text \<open>
  The specification's \<^verbatim>\<open>stats\<close>: the "top 5 most-accessed files by accessCount
  descending, ties broken by arbitrary but stable order", taken over the stored
  records.
\<close>

definition top5 :: "fileObject list \<Rightarrow> fileObject list" where
  "top5 fs = take 5 (sort_key (\<lambda>f. - int (accessCount f)) fs)"

text \<open>The statistics document as \<^verbatim>\<open>getStats\<close> gives it: empty when none is stored.\<close>

definition statsOf :: "world \<Rightarrow> botStats" where
  "statsOf w = (case stats w of None \<Rightarrow> \<lparr>users = [], actions = []\<rparr> | Some st \<Rightarrow> st)"

text \<open>
  The state and the data of a user's session as \<^verbatim>\<open>getSession\<close> gives them: those of
  the stored session, idle and empty when none is stored.
\<close>

definition sessionView :: "world \<Rightarrow> string \<Rightarrow> string \<times> (string \<rightharpoonup> dataValue)" where
  "sessionView w uid =
     (case sessions w uid of None \<Rightarrow> (''idle'', Map.empty) | Some s \<Rightarrow> (state s, data s))"

text \<open>How often a run has called \<^verbatim>\<open>answerCallbackQuery\<close> for a callback query.\<close>

definition isAnswerTo :: "string \<Rightarrow> event \<Rightarrow> bool" where
  "isAnswerTo q e = (case e of Telegram (AnswerCallbackQuery q' _) \<Rightarrow> q' = q | _ \<Rightarrow> False)"

definition answersTo :: "string \<Rightarrow> event list \<Rightarrow> nat" where
  "answersTo q tr = length (filter (isAnswerTo q) tr)"

text \<open>The characters \<^verbatim>\<open>0\<close> to \<^verbatim>\<open>9\<close>.\<close>

definition decimal :: "char \<Rightarrow> bool" where
  "decimal c = (c \<in> set ''0123456789'')"

text \<open>The row of buttons under the file numbered \<open>n\<close> in a list: share and delete.\<close>

definition fileRow :: "int \<Rightarrow> fileObject \<Rightarrow> button list" where
  "fileRow n f =
     [\<lparr>label = ShareNo n, callback_data = ''file:share:'' @ fileId f\<rparr>,
      \<lparr>label = DeleteNo n, callback_data = ''file:delete:'' @ fileId f\<rparr>]"

section \<open>Sample inputs\<close>

definition cfg0 :: "config" where
  "cfg0 = \<lparr>ADMIN_IDS = [''1000''], BOT_USERNAME = ''FileStoreBot''\<rparr>"

definition sampleFile :: "string \<Rightarrow> string \<Rightarrow> nat \<Rightarrow> fileObject" where
  "sampleFile i owner n =
     \<lparr>file_id = Some (''tg-'' @ i), file_type = Some ''document'', caption = Some ''report'',
      fileId = i, savedBy = owner, category = ''documents'', createdAt = 1700000000000,
      accessCount = n, lastAccessed = None\<rparr>"

definition emptyWorld :: "world" where
  "emptyWorld =
     \<lparr>files = [], userFiles = Map.empty, categories = Map.empty, sessions = Map.empty,
      stats = None, trace = [], clock = (\<lambda>n. 1700000000000 + n), ticks = 0,
      randomIds = (\<lambda>n. ''0f'' @ natToString n), drawn = 0, apiOk = (\<lambda>n. True), called = 0\<rparr>"

definition oneFileWorld :: "world" where
  "oneFileWorld =
     emptyWorld\<lparr>files := [(''a1'', sampleFile ''a1'' ''2000'' 3)],
                userFiles := [''2000'' \<mapsto> [''a1'']],
                categories := [''documents'' \<mapsto> [''a1'']]\<rparr>"

definition visitedFile :: "fileObject" where
  "visitedFile = (sampleFile ''a1'' ''2000'' 3)\<lparr>lastAccessed := Some 1690000000000\<rparr>"

definition visitedWorld :: "world" where
  "visitedWorld = oneFileWorld\<lparr>files := [(''a1'', visitedFile)]\<rparr>"

text \<open>
  A file last accessed at a time later than the clock of the world reads (the clock
  of a worker that runs behind the one that served the previous access), and a file
  whose count has reached \<open>2^53\<close>.
\<close>

definition laterFile :: "fileObject" where
  "laterFile = (sampleFile ''a1'' ''2000'' 3)\<lparr>lastAccessed := Some 1700000000500\<rparr>"

definition laterWorld :: "world" where
  "laterWorld = oneFileWorld\<lparr>files := [(''a1'', laterFile)]\<rparr>"

definition saturatedWorld :: "world" where
  "saturatedWorld = oneFileWorld\<lparr>files := [(''a1'', sampleFile ''a1'' ''2000'' 9007199254740992)]\<rparr>"

definition pendingSession :: "session" where
  "pendingSession =
     \<lparr>userId = ''2000'', state = ''awaiting_delete_confirm'', data = [''fileId'' \<mapsto> Str ''a1''],
      sessionCreatedAt = 1690000000000, lastActive = 1690000000500\<rparr>"

definition sessionWorld :: "world" where
  "sessionWorld = oneFileWorld\<lparr>sessions := [''2000'' \<mapsto> pendingSession]\<rparr>"

definition sevenFilesWorld :: "world" where
  "sevenFilesWorld =
     emptyWorld\<lparr>files := [(''f1'', sampleFile ''f1'' ''2000'' 0), (''f2'', sampleFile ''f2'' ''2000'' 0),
                          (''f3'', sampleFile ''f3'' ''2000'' 0), (''f4'', sampleFile ''f4'' ''2000'' 0),
                          (''f5'', sampleFile ''f5'' ''2000'' 0), (''f6'', sampleFile ''f6'' ''2000'' 0),
                          (''f7'', sampleFile ''f7'' ''2000'' 0)],
                userFiles := [''2000'' \<mapsto> [''f1'', ''f2'', ''f3'', ''f4'', ''f5'', ''f6'', ''f7'']],
                categories := [''documents'' \<mapsto> [''f1'', ''f2'', ''f3'', ''f4'', ''f5'', ''f6'', ''f7'']]\<rparr>"

text \<open>
  The world of seven files when the API refuses the second call made to it, and when
  it refuses every call.
\<close>

definition secondCallRefusedWorld :: "world" where
  "secondCallRefusedWorld = sevenFilesWorld\<lparr>apiOk := (\<lambda>n. n \<noteq> 1)\<rparr>"

definition unreachableApiWorld :: "world" where
  "unreachableApiWorld = sevenFilesWorld\<lparr>apiOk := (\<lambda>n. False)\<rparr>"

definition elevenFilesWorld :: "world" where
  "elevenFilesWorld =
     emptyWorld\<lparr>files := [(''f01'', sampleFile ''f01'' ''2000'' 1), (''f02'', sampleFile ''f02'' ''2000'' 2),
                          (''f03'', sampleFile ''f03'' ''2000'' 3), (''f04'', sampleFile ''f04'' ''2000'' 4),
                          (''f05'', sampleFile ''f05'' ''2000'' 5), (''f06'', sampleFile ''f06'' ''2000'' 6),
                          (''f07'', sampleFile ''f07'' ''2000'' 7), (''f08'', sampleFile ''f08'' ''2000'' 8),
                          (''f09'', sampleFile ''f09'' ''2000'' 9), (''f10'', sampleFile ''f10'' ''2000'' 10),
                          (''f11'', sampleFile ''f11'' ''2000'' 11)],
                userFiles := [''2000'' \<mapsto> [''f01'', ''f02'', ''f03'', ''f04'', ''f05'', ''f06'', ''f07'',
                                           ''f08'', ''f09'', ''f10'', ''f11'']],
                categories := [''documents'' \<mapsto> [''f01'', ''f02'', ''f03'', ''f04'', ''f05'', ''f06'',
                                                 ''f07'', ''f08'', ''f09'', ''f10'', ''f11'']],
                stats := Some \<lparr>users = [(''1000'', 2), (''2000'', 5)],
                               actions = [(''message'', 6), (''callback_query'', 1)]\<rparr>\<rparr>"

definition message0 :: "message" where
  "message0 = \<lparr>chat_id = 2000, from_id = ''2000''\<rparr>"

definition adminMessage :: "message" where
  "adminMessage = \<lparr>chat_id = 1000, from_id = ''1000''\<rparr>"

definition query0 :: "callbackQuery" where
  "query0 = \<lparr>query_id = ''q1'', query_from_id = ''2000'', query_chat_id = 2000,
             query_message_id = 77\<rparr>"

section \<open>Running the primitives\<close>

declare natToString.simps [simp del]

text \<open>Different keys have different names: the tables of the world do not overlap.\<close>

lemma keyName_inj: "keyName a = keyName b \<Longrightarrow> a = b"
  by (cases a; cases b) (simp_all add: keyName_def)

lemmas db_defs = db_get_file_def db_set_file_def db_delete_file_def db_get_userFiles_def
  db_set_userFiles_def db_get_category_def db_set_category_def db_get_session_def
  db_set_session_def db_get_stats_def db_listKeys_file_def

lemmas prog_defs = bind_def ret_def throw_def emit_def Date_now_def generateSecureId_def
  callMethod_def

lemmas api_defs = sendMessage_def sendDocument_def sendPhoto_def sendVideo_def sendAudio_def
  editMessageText_def answerCallbackQuery_def

lemmas sample_defs = cfg0_def sampleFile_def emptyWorld_def oneFileWorld_def visitedFile_def
  visitedWorld_def pendingSession_def sessionWorld_def sevenFilesWorld_def message0_def
  adminMessage_def query0_def elevenFilesWorld_def laterFile_def laterWorld_def
  saturatedWorld_def secondCallRefusedWorld_def unreachableApiWorld_def

lemma map_of_delete_same: "map_of (AList.delete k al) k = None"
  by (simp add: delete_conv')

lemma callMethod_run:
  "callMethod c w =
     (if apiOk w (called w) then Ok () else Throw ApiError,
      w\<lparr>trace := trace w @ [Telegram c], called := called w + 1\<rparr>)"
  by (simp add: callMethod_def emit_def Let_def)

lemma getUserFiles_run:
  "getUserFiles uid w =
     (Ok (List.map_filter (\<lambda>i. map_of (files w) i) (orEmpty (userFiles w uid))), w)"
  by (simp add: getUserFiles_def db_get_userFiles_def bind_def)

lemma getUserFiles_world:
  "fst (getUserFiles uid w) = Ok fs \<Longrightarrow> getUserFiles uid w = (Ok fs, w)"
  by (simp add: getUserFiles_run)

lemma getUserFiles_after_call:
  "getUserFiles uid (w\<lparr>trace := t, called := c\<rparr>) =
     (case getUserFiles uid w of (r, w') \<Rightarrow> (r, w'\<lparr>trace := t, called := c\<rparr>))"
  by (simp add: getUserFiles_run)

section \<open>FileManager.deleteFile\<close>

lemma deleteFile_denied_run:
  assumes "map_of (files w) (str i) = Some f" "uid \<notin> set (ADMIN_IDS cfg)" "savedBy f \<noteq> uid"
  shows "deleteFile cfg i uid w = (Ok False, w)"
  using assms by (simp add: deleteFile_def getFile_def db_defs prog_defs)

lemma deleteFile_permitted_run:
  assumes "map_of (files w) (str i) = Some f" "uid \<in> set (ADMIN_IDS cfg) \<or> savedBy f = uid"
  shows "deleteFile cfg i uid w =
    (Ok True,
     w\<lparr>files := AList.delete (str i) (files w),
       userFiles := (userFiles w)(savedBy f \<mapsto> filter (\<lambda>x. Some x \<noteq> i) (orEmpty (userFiles w (savedBy f)))),
       categories := (categories w)(category f \<mapsto> filter (\<lambda>x. Some x \<noteq> i) (orEmpty (categories w (category f)))),
       trace := trace w @ [KvDelete (FileKey (str i)), KvPut (UserFilesKey (savedBy f)),
                           KvPut (CategoryKey (category f))]\<rparr>)"
  using assms by (auto simp add: deleteFile_def getFile_def db_defs prog_defs)

text \<open>
  C1. Let the identifier resolve to a record \<open>f\<close>. A requester who is neither in
  \<^verbatim>\<open>ADMIN_IDS\<close> nor the record's \<^verbatim>\<open>savedBy\<close> gets false, and the world is left as it
  was (nothing written, nothing deleted). The owner or an administrator gets true:
  the record is gone, the owner's index and the category's index are the old lists
  without the identifier, every other record, index and session is as before, and
  the run made exactly one delete and two writes.
\<close>

theorem deleteFile_permission:
  assumes "map_of (files w) i = Some f"
  shows "(uid \<notin> set (ADMIN_IDS cfg) \<and> savedBy f \<noteq> uid \<longrightarrow>
            deleteFile cfg (Some i) uid w = (Ok False, w))
       \<and> (uid \<in> set (ADMIN_IDS cfg) \<or> savedBy f = uid \<longrightarrow>
            (\<exists>w' us cs.
               deleteFile cfg (Some i) uid w = (Ok True, w')
             \<and> map_of (files w') i = None
             \<and> userFiles w' (savedBy f) = Some us \<and> i \<notin> set us
             \<and> us = filter (\<lambda>x. x \<noteq> i) (orEmpty (userFiles w (savedBy f)))
             \<and> categories w' (category f) = Some cs \<and> i \<notin> set cs
             \<and> cs = filter (\<lambda>x. x \<noteq> i) (orEmpty (categories w (category f)))
             \<and> (\<forall>j. j \<noteq> i \<longrightarrow> map_of (files w') j = map_of (files w) j)
             \<and> (\<forall>u. u \<noteq> savedBy f \<longrightarrow> userFiles w' u = userFiles w u)
             \<and> (\<forall>c. c \<noteq> category f \<longrightarrow> categories w' c = categories w c)
             \<and> sessions w' = sessions w \<and> stats w' = stats w
             \<and> trace w' = trace w @ [KvDelete (FileKey i), KvPut (UserFilesKey (savedBy f)),
                                     KvPut (CategoryKey (category f))]))"
proof (intro conjI impI)
  assume "uid \<notin> set (ADMIN_IDS cfg) \<and> savedBy f \<noteq> uid"
  then show "deleteFile cfg (Some i) uid w = (Ok False, w)"
    using assms deleteFile_denied_run[of w "Some i" f uid cfg] by (simp add: str_def)
next
  assume p: "uid \<in> set (ADMIN_IDS cfg) \<or> savedBy f = uid"
  have f: "map_of (files w) (str (Some i)) = Some f" using assms by (simp add: str_def)
  show "\<exists>w' us cs.
               deleteFile cfg (Some i) uid w = (Ok True, w')
             \<and> map_of (files w') i = None
             \<and> userFiles w' (savedBy f) = Some us \<and> i \<notin> set us
             \<and> us = filter (\<lambda>x. x \<noteq> i) (orEmpty (userFiles w (savedBy f)))
             \<and> categories w' (category f) = Some cs \<and> i \<notin> set cs
             \<and> cs = filter (\<lambda>x. x \<noteq> i) (orEmpty (categories w (category f)))
             \<and> (\<forall>j. j \<noteq> i \<longrightarrow> map_of (files w') j = map_of (files w) j)
             \<and> (\<forall>u. u \<noteq> savedBy f \<longrightarrow> userFiles w' u = userFiles w u)
             \<and> (\<forall>c. c \<noteq> category f \<longrightarrow> categories w' c = categories w c)
             \<and> sessions w' = sessions w \<and> stats w' = stats w
             \<and> trace w' = trace w @ [KvDelete (FileKey i), KvPut (UserFilesKey (savedBy f)),
                                     KvPut (CategoryKey (category f))]"
    unfolding deleteFile_permitted_run[OF f p]
    by (simp add: str_def map_of_delete_same)
qed

theorem deleteFile_permission_witness:
  "deleteFile cfg0 (Some ''a1'') ''3000'' oneFileWorld = (Ok False, oneFileWorld)
 \<and> fst (deleteFile cfg0 (Some ''a1'') ''2000'' oneFileWorld) = Ok True
 \<and> fst (deleteFile cfg0 (Some ''a1'') ''1000'' oneFileWorld) = Ok True
 \<and> map_of (files (snd (deleteFile cfg0 (Some ''a1'') ''1000'' oneFileWorld))) ''a1'' = None
 \<and> userFiles (snd (deleteFile cfg0 (Some ''a1'') ''1000'' oneFileWorld)) ''2000'' = Some []"
proof -
  have h: "map_of (files oneFileWorld) ''a1'' = Some (sampleFile ''a1'' ''2000'' 3)"
    by (simp add: sample_defs)
  have stranger: "deleteFile cfg0 (Some ''a1'') ''3000'' oneFileWorld = (Ok False, oneFileWorld)"
    using deleteFile_permission[OF h, of "''3000''" cfg0] by (simp add: sample_defs)
  have owner: "fst (deleteFile cfg0 (Some ''a1'') ''2000'' oneFileWorld) = Ok True"
    using deleteFile_permission[OF h, of "''2000''" cfg0] by (auto simp add: sample_defs)
  have admin: "\<exists>w'. deleteFile cfg0 (Some ''a1'') ''1000'' oneFileWorld = (Ok True, w')
       \<and> map_of (files w') ''a1'' = None \<and> userFiles w' ''2000'' = Some []"
    using deleteFile_permission[OF h, of "''1000''" cfg0]
    by (auto simp add: sample_defs orEmpty_def)
  show ?thesis using stranger owner admin by auto
qed

text \<open>
  C9. Deleting an identifier that resolves to no record returns false and leaves
  the world as it was: no key is written or deleted, whoever asks, administrators
  included.
\<close>

theorem deleteFile_missing:
  assumes "map_of (files w) (str i) = None"
  shows "deleteFile cfg i uid w = (Ok False, w)"
  using assms by (simp add: deleteFile_def getFile_def db_defs prog_defs)

theorem deleteFile_missing_witness:
  "deleteFile cfg0 (Some ''zz'') ''1000'' oneFileWorld = (Ok False, oneFileWorld)
 \<and> ''1000'' \<in> set (ADMIN_IDS cfg0)"
proof -
  have h: "map_of (files oneFileWorld) (str (Some ''zz'')) = None"
    by (simp add: sample_defs str_def)
  show ?thesis using deleteFile_missing[OF h, of cfg0 "''1000''"] by (simp add: cfg0_def)
qed

section \<open>FileManager.trackFileAccess\<close>

lemma trackFileAccess_absent_run:
  assumes "map_of (files w) (str i) = None"
  shows "trackFileAccess i w = (Ok (), w)"
  using assms by (simp add: trackFileAccess_def getFile_def db_defs prog_defs)

lemma plusOne_exact: "n < 9007199254740992 \<Longrightarrow> plusOne n = n + 1"
  by (simp add: plusOne_def)

lemma plusOne_limit: "(2::nat) ^ 53 = 9007199254740992 \<and> plusOne (2 ^ 53) = 2 ^ 53"
  by (simp add: plusOne_def)

lemma trackFileAccess_present_run:
  assumes "map_of (files w) (str i) = Some f"
  shows "trackFileAccess i w =
    (Ok (), w\<lparr>files := AList.update (str i)
                  (f\<lparr>accessCount := plusOne (accessCount f),
                     lastAccessed := Some (clock w (ticks w))\<rparr>) (files w),
              ticks := ticks w + 1,
              trace := trace w @ [KvPut (FileKey (str i))]\<rparr>)"
  using assms by (simp add: trackFileAccess_def getFile_def db_defs prog_defs)

text \<open>
  C5 as stated fails, in two places. The call stores the reading of the clock
  without looking at the stored time: a record last accessed at 1700000000500,
  accessed again where the clock reads 1700000000000, has the earlier time
  afterwards. And a record whose count is \<open>2^53\<close> has the same count afterwards.
\<close>

theorem trackFileAccess_earlier_clock_full_count:
  "lastAccessed laterFile = Some 1700000000500
 \<and> map_option lastAccessed
      (map_of (files (snd (trackFileAccess (Some ''a1'') laterWorld))) ''a1'')
     = Some (Some 1700000000000)
 \<and> \<not> (1700000000500::nat) \<le> 1700000000000
 \<and> map_option accessCount (map_of (files saturatedWorld) ''a1'') = Some 9007199254740992
 \<and> map_option accessCount
      (map_of (files (snd (trackFileAccess (Some ''a1'') saturatedWorld))) ''a1'')
     = Some 9007199254740992"
proof -
  have l: "map_of (files laterWorld) (str (Some ''a1'')) = Some laterFile"
    by (simp add: sample_defs str_def)
  have f: "map_of (files saturatedWorld) (str (Some ''a1'')) =
      Some (sampleFile ''a1'' ''2000'' 9007199254740992)"
    by (simp add: sample_defs str_def)
  show ?thesis
    unfolding trackFileAccess_present_run[OF l] trackFileAccess_present_run[OF f]
    by (simp add: sample_defs str_def plusOne_def)
qed

text \<open>
  C5 as amended. When no record is stored under the identifier, \<^verbatim>\<open>trackFileAccess\<close>
  returns normally and leaves the world as it was. When a record \<open>f\<close> is stored, the
  call returns normally and the record stored afterwards has the count of \<open>f\<close> plus
  one as JavaScript adds (exactly one more whenever the count is below \<open>2^53\<close>) and
  has \<^verbatim>\<open>lastAccessed\<close> equal to the reading of the clock at the call, whatever the
  previous value was. Every other field of the record and every other document is
  unchanged.
\<close>

theorem trackFileAccess_counts:
  "(map_of (files w) (str i) = None \<longrightarrow> trackFileAccess i w = (Ok (), w))
 \<and> (\<forall>f. map_of (files w) (str i) = Some f \<longrightarrow>
       (\<exists>w' f'. trackFileAccess i w = (Ok (), w')
          \<and> map_of (files w') (str i) = Some f'
          \<and> accessCount f' = plusOne (accessCount f)
          \<and> (accessCount f < 9007199254740992 \<longrightarrow> accessCount f' = accessCount f + 1)
          \<and> lastAccessed f' = Some (clock w (ticks w))
          \<and> fileData.truncate f' = fileData.truncate f
          \<and> fileId f' = fileId f \<and> savedBy f' = savedBy f \<and> category f' = category f
          \<and> createdAt f' = createdAt f
          \<and> (\<forall>j. j \<noteq> str i \<longrightarrow> map_of (files w') j = map_of (files w) j)
          \<and> userFiles w' = userFiles w \<and> categories w' = categories w
          \<and> sessions w' = sessions w))"
proof (intro conjI allI impI)
  assume "map_of (files w) (str i) = None"
  then show "trackFileAccess i w = (Ok (), w)" by (rule trackFileAccess_absent_run)
next
  fix f assume f: "map_of (files w) (str i) = Some f"
  show "\<exists>w' f'. trackFileAccess i w = (Ok (), w')
          \<and> map_of (files w') (str i) = Some f'
          \<and> accessCount f' = plusOne (accessCount f)
          \<and> (accessCount f < 9007199254740992 \<longrightarrow> accessCount f' = accessCount f + 1)
          \<and> lastAccessed f' = Some (clock w (ticks w))
          \<and> fileData.truncate f' = fileData.truncate f
          \<and> fileId f' = fileId f \<and> savedBy f' = savedBy f \<and> category f' = category f
          \<and> createdAt f' = createdAt f
          \<and> (\<forall>j. j \<noteq> str i \<longrightarrow> map_of (files w') j = map_of (files w) j)
          \<and> userFiles w' = userFiles w \<and> categories w' = categories w
          \<and> sessions w' = sessions w"
    unfolding trackFileAccess_present_run[OF f]
    by (simp add: update_conv' fileData.truncate_def plusOne_exact)
qed

theorem trackFileAccess_counts_witness:
  "trackFileAccess (Some ''zz'') visitedWorld = (Ok (), visitedWorld)
 \<and> accessCount visitedFile = 3
 \<and> (\<exists>w' f'. trackFileAccess (Some ''a1'') visitedWorld = (Ok (), w')
       \<and> map_of (files w') ''a1'' = Some f'
       \<and> accessCount f' = 4
       \<and> lastAccessed f' = Some 1700000000000)"
proof -
  have absent: "map_of (files visitedWorld) (str (Some ''zz'')) = None"
    by (simp add: sample_defs str_def)
  have present: "map_of (files visitedWorld) (str (Some ''a1'')) = Some visitedFile"
    by (simp add: sample_defs str_def)
  have small: "accessCount visitedFile = 3 \<and> accessCount visitedFile < 9007199254740992"
    by (simp add: sample_defs)
  have a: "trackFileAccess (Some ''zz'') visitedWorld = (Ok (), visitedWorld)"
    using trackFileAccess_counts[of visitedWorld "Some ''zz''"] absent by blast
  obtain w' f' where r: "trackFileAccess (Some ''a1'') visitedWorld = (Ok (), w')"
      "map_of (files w') (str (Some ''a1'')) = Some f'"
      "accessCount f' = accessCount visitedFile + 1"
      "lastAccessed f' = Some (clock visitedWorld (ticks visitedWorld))"
    using trackFileAccess_counts[of visitedWorld "Some ''a1''"] present small by blast
  have "map_of (files w') ''a1'' = Some f' \<and> accessCount f' = 4
      \<and> lastAccessed f' = Some 1700000000000"
    using r small by (simp add: sample_defs str_def)
  then show ?thesis using a r(1) small by blast
qed

section \<open>SessionManager.setState\<close>

lemma getSession_present_run:
  assumes "sessions w uid = Some s"
  shows "getSession uid w = (Ok s, w)"
  using assms by (simp add: getSession_def db_defs prog_defs)

lemma getSession_absent_run:
  assumes "sessions w uid = None"
  shows "getSession uid w =
    (let s = \<lparr>userId = uid, state = ''idle'', data = Map.empty,
              sessionCreatedAt = clock w (ticks w), lastActive = clock w (ticks w + 1)\<rparr>
     in (Ok s, w\<lparr>sessions := (sessions w)(uid \<mapsto> s), ticks := ticks w + 2,
                trace := trace w @ [KvPut (SessionKey uid)]\<rparr>))"
  using assms by (simp add: getSession_def db_defs prog_defs Let_def)

text \<open>
  C4. \<^verbatim>\<open>setState(userId, state, data)\<close> always returns a session \<open>s'\<close>: its state is
  the new state, its data is the new data object and nothing else (the same keys,
  so none of the old data's), its \<^verbatim>\<open>lastActive\<close> is the last reading of the clock the
  call took; \<open>s'\<close> is what is stored for the user afterwards. The user id and the
  creation time are those of the session found (or of the idle session made for a
  user who had none); files and indexes are untouched.
\<close>

theorem setState_replaces:
  "\<exists>s' w'. setState uid st d w = (Ok s', w')
     \<and> state s' = st \<and> data s' = d \<and> dom (data s') = dom d
     \<and> lastActive s' = clock w (ticks w' - 1) \<and> ticks w < ticks w' \<and> clock w' = clock w
     \<and> userId s' = (case sessions w uid of None \<Rightarrow> uid | Some s \<Rightarrow> userId s)
     \<and> sessionCreatedAt s' =
         (case sessions w uid of None \<Rightarrow> clock w (ticks w) | Some s \<Rightarrow> sessionCreatedAt s)
     \<and> sessions w' = (sessions w)(uid \<mapsto> s')
     \<and> files w' = files w \<and> userFiles w' = userFiles w \<and> categories w' = categories w"
proof (cases "sessions w uid")
  case None
  show ?thesis
    by (simp add: setState_def updateSession_def getSession_absent_run[OF None] db_defs
        prog_defs Let_def None)
next
  case (Some s)
  show ?thesis
    by (simp add: setState_def updateSession_def getSession_present_run[OF Some] db_defs
        prog_defs Let_def Some)
qed

theorem setState_replaces_witness:
  "data pendingSession ''fileId'' = Some (Str ''a1'')
 \<and> (\<exists>s' w'. setState ''2000'' ''idle'' Map.empty sessionWorld = (Ok s', w')
       \<and> state s' = ''idle'' \<and> data s' ''fileId'' = None
       \<and> lastActive s' = 1700000000000
       \<and> sessions w' ''2000'' = Some s')"
proof -
  obtain s' w' where r: "setState ''2000'' ''idle'' Map.empty sessionWorld = (Ok s', w')"
      "state s' = ''idle''" "data s' = Map.empty"
      "lastActive s' = clock sessionWorld (ticks w' - 1)"
      "sessions w' = (sessions sessionWorld)(''2000'' \<mapsto> s')"
    using setState_replaces[of "''2000''" "''idle''" Map.empty sessionWorld] by blast
  have "ticks w' = 1"
    using r(1) by (auto simp add: setState_def updateSession_def getSession_def db_defs
        prog_defs sample_defs Let_def)
  then have "lastActive s' = 1700000000000" using r(4) by (simp add: sample_defs)
  then show ?thesis using r by (auto simp add: sample_defs)
qed

section \<open>Retrieval: /start with a token\<close>

text \<open>
  When \<^verbatim>\<open>matchPost\<close> finds a token, the argument contains \<^verbatim>\<open>post=\<close> followed by the
  identifier, which is not empty, has no white space and ends at white space or at
  the end; and every argument with \<^verbatim>\<open>post=\<close> before a character that is not white
  space has a token.
\<close>

lemma matchPost_Some:
  "matchPost args = Some p \<Longrightarrow>
     p \<noteq> [] \<and> (\<forall>c \<in> set p. \<not> isWhiteSpace c)
     \<and> (\<exists>pre suf. args = pre @ ''post='' @ p @ suf \<and> (suf = [] \<or> isWhiteSpace (hd suf)))"
proof (induction args)
  case Nil
  then show ?case by simp
next
  case (Cons c cs)
  show ?case
  proof (cases "take 5 (c # cs) = ''post='' \<and> drop 5 (c # cs) \<noteq> []
                 \<and> \<not> isWhiteSpace (hd (drop 5 (c # cs)))")
    case True
    then have p: "p = takeWhile (\<lambda>x. \<not> isWhiteSpace x) (drop 5 (c # cs))"
      using Cons.prems by (simp add: Let_def)
    have parts: "c # cs = ''post='' @ p @ dropWhile (\<lambda>x. \<not> isWhiteSpace x) (drop 5 (c # cs))"
      using True p by (metis append_take_drop_id takeWhile_dropWhile_id)
    have ne: "p \<noteq> []" using True p by (cases "drop 5 (c # cs)") auto
    have ws: "\<forall>c \<in> set p. \<not> isWhiteSpace c" using p by (auto dest: set_takeWhileD)
    have suf: "dropWhile (\<lambda>x. \<not> isWhiteSpace x) (drop 5 (c # cs)) = [] \<or>
               isWhiteSpace (hd (dropWhile (\<lambda>x. \<not> isWhiteSpace x) (drop 5 (c # cs))))"
      using hd_dropWhile[of "\<lambda>x. \<not> isWhiteSpace x" "drop 5 (c # cs)"] by blast
    show ?thesis using ne ws parts suf by (metis append_Nil)
  next
    case False
    then have "matchPost cs = Some p" using Cons.prems by (simp add: Let_def split: if_splits)
    then obtain pre suf where "p \<noteq> []" "\<forall>c \<in> set p. \<not> isWhiteSpace c"
      "cs = pre @ ''post='' @ p @ suf" "suf = [] \<or> isWhiteSpace (hd suf)"
      using Cons.IH by blast
    then show ?thesis by (metis append_Cons)
  qed
qed

lemma matchPost_finds:
  "args = pre @ ''post='' @ c # rest \<Longrightarrow> \<not> isWhiteSpace c \<Longrightarrow> matchPost args \<noteq> None"
proof (induction pre arbitrary: args)
  case Nil
  then show ?case by (simp add: Let_def)
next
  case (Cons x pre)
  then show ?case by (auto simp add: Let_def)
qed

lemma deliveryOperation_cases:
  assumes "deliveryOperation kind = Some operation"
  shows "(kind = ''document'' \<and> operation = SendDocument)
       \<or> (kind = ''photo'' \<and> operation = SendPhoto)
       \<or> (kind = ''video'' \<and> operation = SendVideo)
       \<or> (kind = ''audio'' \<and> operation = SendAudio)
       \<or> (kind = ''voice'' \<and> operation = SendVoice)
       \<or> (kind = ''animation'' \<and> operation = SendAnimation)"
  using assms by (simp add: deliveryOperation_def split: if_splits)

lemma handleStart_found:
  assumes "matchPost args = Some postId" "map_of (files w) postId = Some f"
    "file_type f = Some kind" "deliveryOperation kind = Some operation"
  shows "handleStart cfg msg args w =
     bind (trackFileAccess (Some postId))
       (\<lambda>_. callMethod (operation (chat_id msg) (file_id f) (orUndefined (caption f)))) w"
proof -
  have g: "getFile (Some postId) w = (Ok (Some f), w)"
    using assms(2) by (simp add: getFile_def db_get_file_def str_def)
  have step: "handleStart cfg msg args w =
     bind (trackFileAccess (Some postId)) (\<lambda>_.
                  let cap = orUndefined (caption f) in
                  if file_type f = Some ''document'' then sendDocument (chat_id msg) (file_id f) cap
                  else if file_type f = Some ''photo'' then sendPhoto (chat_id msg) (file_id f) cap
                  else if file_type f = Some ''video'' then sendVideo (chat_id msg) (file_id f) cap
                  else if file_type f = Some ''audio'' then sendAudio (chat_id msg) (file_id f) cap
                  else if file_type f = Some ''voice'' then callMethod (SendVoice (chat_id msg) (file_id f) cap)
                  else if file_type f = Some ''animation'' then callMethod (SendAnimation (chat_id msg) (file_id f) cap)
                  else sendMessage (chat_id msg) UnsupportedFileType None) w"
    using assms(1) g by (simp add: handleStart_def bind_def)
  from deliveryOperation_cases[OF assms(4)] show ?thesis
    unfolding step using assms(3)
    by (elim disjE conjE)
       (simp_all add: Let_def sendDocument_def sendPhoto_def sendVideo_def sendAudio_def)
qed

text \<open>
  A record whose \<^verbatim>\<open>file_type\<close> is none of the six kinds: the access is counted and
  the reply is "Unsupported file type."
\<close>

lemma handleStart_unsupported:
  assumes "matchPost args = Some postId" "map_of (files w) postId = Some f"
      and "\<forall>kind. file_type f = Some kind \<longrightarrow> deliveryOperation kind = None"
  shows "handleStart cfg msg args w =
     bind (trackFileAccess (Some postId))
       (\<lambda>_. callMethod (SendMessage (chat_id msg) UnsupportedFileType None)) w"
proof -
  have g: "getFile (Some postId) w = (Ok (Some f), w)"
    using assms(2) by (simp add: getFile_def db_get_file_def str_def)
  have k: "file_type f \<noteq> Some ''document'' \<and> file_type f \<noteq> Some ''photo''
      \<and> file_type f \<noteq> Some ''video'' \<and> file_type f \<noteq> Some ''audio''
      \<and> file_type f \<noteq> Some ''voice'' \<and> file_type f \<noteq> Some ''animation''"
    using assms(3) by (auto simp add: deliveryOperation_def)
  show ?thesis
    using assms(1) g k by (simp add: handleStart_def bind_def Let_def sendMessage_def)
qed

text \<open>
  C6. Let the argument of \<^verbatim>\<open>/start\<close> hold the token \<^verbatim>\<open>post=<id>\<close>. If no record is
  stored under the identifier, the handler makes one API call, the "not found"
  message to the chat, and nothing else: no key is written, no file is sent. If a
  record \<open>f\<close> of one of the six kinds is stored, the handler first writes the record
  back with its access counted (as \<^verbatim>\<open>trackFileAccess\<close> does: the count plus one as
  JavaScript adds, the time of the clock) and then makes one API
  call, the delivery operation of the record's kind, with the record's file handle
  and with its caption when that is not empty. The outcome is that of the API call.
\<close>

theorem handleStart_retrieval:
  assumes "matchPost args = Some postId"
  shows "(map_of (files w) postId = None \<longrightarrow>
           handleStart cfg msg args w =
             (if apiOk w (called w) then Ok () else Throw ApiError,
              w\<lparr>trace := trace w @ [Telegram (SendMessage (chat_id msg) FileNotFoundOrDeleted None)],
                called := called w + 1\<rparr>))
       \<and> (\<forall>f kind operation.
             map_of (files w) postId = Some f \<and> file_type f = Some kind
               \<and> deliveryOperation kind = Some operation \<longrightarrow>
           handleStart cfg msg args w =
             (if apiOk w (called w) then Ok () else Throw ApiError,
              w\<lparr>files := AList.update postId
                    (f\<lparr>accessCount := plusOne (accessCount f),
                       lastAccessed := Some (clock w (ticks w))\<rparr>) (files w),
                ticks := ticks w + 1,
                trace := trace w @
                  [KvPut (FileKey postId),
                   Telegram (operation (chat_id msg) (file_id f)
                     (if caption f = None \<or> caption f = Some [] then None else caption f))],
                called := called w + 1\<rparr>))"
proof (intro conjI allI impI)
  assume "map_of (files w) postId = None"
  then show "handleStart cfg msg args w =
             (if apiOk w (called w) then Ok () else Throw ApiError,
              w\<lparr>trace := trace w @ [Telegram (SendMessage (chat_id msg) FileNotFoundOrDeleted None)],
                called := called w + 1\<rparr>)"
    using assms
    by (simp add: handleStart_def getFile_def str_def db_get_file_def bind_def sendMessage_def
          callMethod_run)
next
  fix f kind operation
  assume a: "map_of (files w) postId = Some f \<and> file_type f = Some kind
               \<and> deliveryOperation kind = Some operation"
  have f: "map_of (files w) (str (Some postId)) = Some f" using a by (simp add: str_def)
  have cap: "orUndefined (caption f) =
      (if caption f = None \<or> caption f = Some [] then None else caption f)"
    by (auto simp add: orUndefined_def split: option.splits)
  have run: "handleStart cfg msg args w =
     bind (trackFileAccess (Some postId))
       (\<lambda>_. callMethod (operation (chat_id msg) (file_id f) (orUndefined (caption f)))) w"
    using handleStart_found[OF assms] a by blast
  show "handleStart cfg msg args w =
             (if apiOk w (called w) then Ok () else Throw ApiError,
              w\<lparr>files := AList.update postId
                    (f\<lparr>accessCount := plusOne (accessCount f),
                       lastAccessed := Some (clock w (ticks w))\<rparr>) (files w),
                ticks := ticks w + 1,
                trace := trace w @
                  [KvPut (FileKey postId),
                   Telegram (operation (chat_id msg) (file_id f)
                     (if caption f = None \<or> caption f = Some [] then None else caption f))],
                called := called w + 1\<rparr>)"
    unfolding run cap[symmetric]
    by (simp add: bind_def trackFileAccess_present_run[OF f] callMethod_run str_def)
qed

theorem handleStart_retrieval_witness:
  "matchPost ''post=zz'' = Some ''zz''
 \<and> trace (snd (handleStart cfg0 message0 ''post=zz'' oneFileWorld)) =
     [Telegram (SendMessage 2000 FileNotFoundOrDeleted None)]
 \<and> files (snd (handleStart cfg0 message0 ''post=zz'' oneFileWorld)) = files oneFileWorld
 \<and> matchPost ''post=a1'' = Some ''a1''
 \<and> trace (snd (handleStart cfg0 message0 ''post=a1'' oneFileWorld)) =
     [KvPut (FileKey ''a1''), Telegram (SendDocument 2000 (Some ''tg-a1'') (Some ''report''))]
 \<and> map_option accessCount (map_of (files (snd (handleStart cfg0 message0 ''post=a1'' oneFileWorld))) ''a1'')
     = Some 4"
proof -
  have m1: "matchPost ''post=zz'' = Some ''zz''" by (simp add: Let_def isWhiteSpace_def)
  have m2: "matchPost ''post=a1'' = Some ''a1''" by (simp add: Let_def isWhiteSpace_def)
  have absent: "map_of (files oneFileWorld) ''zz'' = None" by (simp add: sample_defs)
  have present: "map_of (files oneFileWorld) ''a1'' = Some (sampleFile ''a1'' ''2000'' 3)
      \<and> file_type (sampleFile ''a1'' ''2000'' 3) = Some ''document''
      \<and> deliveryOperation ''document'' = Some SendDocument"
    by (simp add: sample_defs deliveryOperation_def)
  have r1: "handleStart cfg0 message0 ''post=zz'' oneFileWorld =
      (Ok (), oneFileWorld\<lparr>trace := [Telegram (SendMessage 2000 FileNotFoundOrDeleted None)],
                           called := 1\<rparr>)"
    using handleStart_retrieval[OF m1, of oneFileWorld cfg0 message0] absent
    by (simp add: sample_defs)
  have r2: "handleStart cfg0 message0 ''post=a1'' oneFileWorld =
      (Ok (), oneFileWorld\<lparr>files := [(''a1'', (sampleFile ''a1'' ''2000'' 3)
                                \<lparr>accessCount := 4, lastAccessed := Some 1700000000000\<rparr>)],
                ticks := 1,
                trace := [KvPut (FileKey ''a1''),
                          Telegram (SendDocument 2000 (Some ''tg-a1'') (Some ''report''))],
                called := 1\<rparr>)"
    using handleStart_retrieval[OF m2, of oneFileWorld cfg0 message0] present
    by (simp add: sample_defs plusOne_def)
  show ?thesis unfolding r1 r2 using m1 m2 by (simp add: sample_defs)
qed

section \<open>Category callback outside the save flow\<close>

text \<open>
  C10. Let a category callback arrive while the sender's session, as \<^verbatim>\<open>getSession\<close>
  gives it, is not in state \<^verbatim>\<open>awaiting_file_category\<close>. The handler makes one API
  call, the answer "This action is no longer valid." to the callback query, and its
  outcome is that call's. No file record, owner index, category index or statistics
  document changes; the state and the data of the sender's session are as before
  (a stored session is not written at all; a sender without one gets the idle, empty
  session \<^verbatim>\<open>getSession\<close> creates); the sessions of other users are untouched.
\<close>

theorem handleCategoryCallback_stale:
  assumes "fst (sessionView w (query_from_id q)) \<noteq> ''awaiting_file_category''"
  shows "\<exists>w'. handleCategoryCallback cfg q params w =
                 (if apiOk w (called w) then Ok () else Throw ApiError, w')
           \<and> files w' = files w \<and> userFiles w' = userFiles w \<and> categories w' = categories w
           \<and> stats w' = stats w
           \<and> sessionView w' (query_from_id q) = sessionView w (query_from_id q)
           \<and> (\<forall>u. u \<noteq> query_from_id q \<longrightarrow> sessions w' u = sessions w u)
           \<and> (\<forall>s. sessions w (query_from_id q) = Some s \<longrightarrow> sessions w' = sessions w)
           \<and> trace w' = trace w
                @ (if sessions w (query_from_id q) = None
                   then [KvPut (SessionKey (query_from_id q))] else [])
                @ [Telegram (AnswerCallbackQuery (query_id q)
                     (Some ''This action is no longer valid.''))]"
proof (cases "sessions w (query_from_id q)")
  case None
  show ?thesis
    by (simp add: handleCategoryCallback_def getSession_def db_get_session_def db_set_session_def
          bind_def ret_def Date_now_def emit_def answerCallbackQuery_def callMethod_run
          sessionView_def None Let_def)
next
  case (Some s)
  then have "state s \<noteq> ''awaiting_file_category''" using assms by (simp add: sessionView_def)
  then show ?thesis
    by (simp add: handleCategoryCallback_def getSession_def db_get_session_def
          bind_def ret_def answerCallbackQuery_def callMethod_run sessionView_def Some Let_def)
qed

theorem handleCategoryCallback_stale_witness:
  "fst (sessionView sessionWorld (query_from_id query0)) = ''awaiting_delete_confirm''
 \<and> (\<exists>w'. handleCategoryCallback cfg0 query0 [''documents''] sessionWorld = (Ok (), w')
       \<and> files w' = files sessionWorld \<and> sessions w' = sessions sessionWorld
       \<and> trace w' = [Telegram (AnswerCallbackQuery ''q1'' (Some ''This action is no longer valid.''))])"
proof -
  have v: "fst (sessionView sessionWorld (query_from_id query0)) = ''awaiting_delete_confirm''"
    by (simp add: sessionView_def sample_defs)
  then have h: "fst (sessionView sessionWorld (query_from_id query0)) \<noteq> ''awaiting_file_category''"
    by simp
  have s: "sessions sessionWorld (query_from_id query0) = Some pendingSession"
    by (simp add: sample_defs)
  show ?thesis
    using handleCategoryCallback_stale[OF h, of cfg0 "[''documents'']"] v s
    by (auto simp add: sample_defs)
qed

section \<open>The HTTP entry point\<close>

lemma fetch_not_post:
  "http_method req \<noteq> ''POST'' \<Longrightarrow> fetch h req w = (Ok (Response ''Method Not Allowed'' 405), w)"
  by (simp add: fetch_def ret_def)

lemma fetch_unparsable:
  "http_method req = ''POST'' \<Longrightarrow> json req = None \<Longrightarrow>
     fetch h req w = (Ok (Response ''Invalid Request Body'' 400), w)"
  by (simp add: fetch_def ret_def)

lemma fetch_post_run:
  "http_method req = ''POST'' \<Longrightarrow> json req = Some u \<Longrightarrow>
     fetch h req w =
       (case processUpdate h u w of
          (Ok x, w') \<Rightarrow> (Ok (Response ''OK'' 200), w')
        | (Throw e, w') \<Rightarrow> (Throw e, w'))"
  by (simp add: fetch_def bind_def ret_def split: prod.splits outcome.splits)

lemma processUpdate_message:
  "processUpdate h (Object (Some m) q) = processMessage h m"
  by (simp add: processUpdate_def processUpdate_try_def)

lemma processUpdate_callback:
  "processUpdate h (Object None (Some q)) = processCallbackQuery h q"
  by (simp add: processUpdate_def processUpdate_try_def)

text \<open>
  A handler whose promise is rejected makes the worker throw: for instance a
  command handler that hands a \<^verbatim>\<open>/start\<close> with an unknown token to \<^verbatim>\<open>handleStart\<close>, when
  the API call of the reply fails.
\<close>

lemma fetch_rejected_handler:
  assumes "processMessage h m w = (Throw e, w')"
  shows "fetch h \<lparr>http_method = ''POST'', json = Some (Object (Some m) q)\<rparr> w = (Throw e, w')"
  using assms by (simp add: fetch_def processUpdate_message bind_def)

lemma fetch_throws_when_reply_fails:
  assumes "processMessage h m = handleStart cfg m args" "matchPost args = Some p"
    "map_of (files w) p = None" "\<not> apiOk w (called w)"
  shows "fst (fetch h \<lparr>http_method = ''POST'', json = Some (Object (Some m) q)\<rparr> w) = Throw ApiError"
proof -
  have "fst (handleStart cfg m args w) = Throw ApiError"
    using assms(2-4)
    by (simp add: handleStart_def getFile_def str_def db_get_file_def bind_def sendMessage_def
          callMethod_run)
  then obtain w' where "processMessage h m w = (Throw ApiError, w')"
    using assms(1) by (cases "handleStart cfg m args w") simp
  then show ?thesis by (simp add: fetch_rejected_handler)
qed

text \<open>
  C7. A request that is not a POST gets status 405 and a POST whose body does not
  parse gets status 400 (\<open>fetch_not_post\<close>, \<open>fetch_unparsable\<close>). That every other POST
  gets "OK" with status 200, whatever happens inside, is what the comment in
  \<^verbatim>\<open>fetch\<close> says and not what the code does. A POST whose body is the JSON text
  \<^verbatim>\<open>null\<close> parses; \<^verbatim>\<open>processUpdate\<close> throws a \<^verbatim>\<open>TypeError\<close> in its \<^verbatim>\<open>try\<close> and again in
  its \<^verbatim>\<open>catch\<close>; the worker throws and returns no response, whatever the command
  handler is.
\<close>

theorem fetch_null_update_throws:
  "fetch h \<lparr>http_method = ''POST'', json = Some Null\<rparr> w = (Throw TypeError, w)"
  by (simp add: fetch_def processUpdate_def processUpdate_try_def processUpdate_catch_def
        bind_def throw_def)

section \<open>Page numbers as text\<close>

text \<open>
  A page number written by \<^verbatim>\<open>toString\<close> into the data of a button is read back by
  \<^verbatim>\<open>parseInt\<close> as the same number (stated for the numbers up to \<open>2^53\<close>, where both
  functions are JavaScript's).
\<close>

lemma below_ten:
  "(m::nat) < 10 \<Longrightarrow> m = 0 \<or> m = 1 \<or> m = 2 \<or> m = 3 \<or> m = 4 \<or> m = 5 \<or> m = 6
     \<or> m = 7 \<or> m = 8 \<or> m = 9"
  by arith

lemma digit_char_value: "m < 10 \<Longrightarrow> digitValue (''0123456789'' ! m) = Some m"
  using below_ten[of m] by (auto simp add: digitValue_def)

lemma digit_char_decimal: "m < 10 \<Longrightarrow> decimal (''0123456789'' ! m)"
  using below_ten[of m] by (auto simp add: decimal_def)

lemma decimal_plain:
  "decimal x \<Longrightarrow> isDigit 10 x \<and> \<not> isWhiteSpace x
     \<and> x \<notin> {CHR ''-'', CHR ''+'', CHR ''x'', CHR ''X''}"
  by (auto simp add: decimal_def isDigit_def digitValue_def isWhiteSpace_def)

lemma natToString_decimal: "list_all decimal (natToString n) \<and> natToString n \<noteq> []"
proof (induction n rule: natToString.induct)
  case (1 n)
  show ?case
  proof (cases "n < 10")
    case True
    then have "natToString n = [''0123456789'' ! n]" by (subst natToString.simps) simp
    then show ?thesis using True by (simp add: digit_char_decimal)
  next
    case False
    have "n mod 10 < 10" by simp
    then have d: "decimal (''0123456789'' ! (n mod 10))" by (rule digit_char_decimal)
    have "natToString n = natToString (n div 10) @ [''0123456789'' ! (n mod 10)]"
      using False by (subst natToString.simps) simp
    then show ?thesis using False 1 d by simp
  qed
qed

lemma digitsValue_snoc:
  "digitsValue r (ds @ [c]) = digitsValue r ds * r + (case digitValue c of None \<Rightarrow> 0 | Some d \<Rightarrow> d)"
  by (simp add: digitsValue_def)

lemma digitsValue_natToString: "digitsValue 10 (natToString n) = n"
proof (induction n rule: natToString.induct)
  case (1 n)
  show ?case
  proof (cases "n < 10")
    case True
    then have "natToString n = [''0123456789'' ! n]" by (subst natToString.simps) simp
    then show ?thesis using True by (simp add: digitsValue_def digit_char_value)
  next
    case False
    have m: "digitValue (''0123456789'' ! (n mod 10)) = Some (n mod 10)"
      by (rule digit_char_value) simp
    have "natToString n = natToString (n div 10) @ [''0123456789'' ! (n mod 10)]"
      using False by (subst natToString.simps) simp
    then have "digitsValue 10 (natToString n) =
        digitsValue 10 (natToString (n div 10)) * 10 + n mod 10"
      by (simp add: digitsValue_snoc m)
    then show ?thesis using 1 False by simp
  qed
qed

lemma parseInt_decimal:
  assumes "list_all decimal s" "s \<noteq> []"
  shows "parseInt (Some s) = Some (int (digitsValue 10 s))"
proof -
  obtain c cs where s: "s = c # cs" using assms(2) by (cases s) auto
  have dec: "\<And>x. decimal x \<Longrightarrow> isDigit 10 x \<and> \<not> isWhiteSpace x
      \<and> x \<notin> {CHR ''-'', CHR ''+'', CHR ''x'', CHR ''X''}"
    by (rule decimal_plain)
  have c: "isDigit 10 c" "\<not> isWhiteSpace c" "c \<noteq> CHR ''-''" "c \<noteq> CHR ''+''"
    using dec[of c] assms(1) s by auto
  have all: "takeWhile (isDigit 10) (c # cs) = c # cs"
    using assms(1) dec s by (auto simp add: list_all_iff takeWhile_eq_all_conv)
  have nohex: "take 2 (c # cs) \<noteq> ''0x'' \<and> take 2 (c # cs) \<noteq> ''0X''"
  proof (cases cs)
    case Nil
    then show ?thesis by simp
  next
    case (Cons d ds)
    then have "decimal d" using assms(1) s by simp
    then have "d \<noteq> CHR ''x'' \<and> d \<noteq> CHR ''X''" using dec[of d] by auto
    then show ?thesis using Cons by simp
  qed
  have d0: "dropWhile isWhiteSpace (c # cs) = c # cs" using c(2) by simp
  have sign: "take 1 (c # cs) \<noteq> ''-'' \<and> take 1 (c # cs) \<noteq> ''+''" using c by simp
  show ?thesis
    unfolding parseInt_def s option.case Let_def d0
    using sign nohex all by (simp only: if_False simp_thms list.distinct)
qed

lemma parseInt_toString:
  assumes "0 \<le> n" "n \<le> 9007199254740992"
  shows "parseInt (Some (toString n)) = Some n"
proof -
  have "toString n = natToString (nat n)" using assms by (simp add: toString_def)
  then show ?thesis
    using parseInt_decimal[of "natToString (nat n)"] natToString_decimal[of "nat n"] assms(1)
    by (simp add: digitsValue_natToString)
qed

lemma splitOn_page_data: "splitOn CHR '':'' ''page:files:2'' = [''page'', ''files'', ''2'']"
  by simp

section \<open>The file list and its pages\<close>

lemma parseInt_2: "parseInt (Some ''2'') = Some 2"
  by (simp add: parseInt_def isWhiteSpace_def isDigit_def digitValue_def digitsValue_def)

lemma toString_2: "toString 2 = ''2''"
  by (simp add: toString_def natToString.simps)

lemma seven: "Suc (Suc (Suc (Suc (Suc (Suc (Suc 0)))))) = 7"
  by simp

lemma seven_pages: "totalPagesOf 7 5 = 2"
  by (simp add: totalPagesOf_def)

lemma first_page_of_seven:
  "pageFiles [f1, f2, f3, f4, f5, f6, f7] 1 5 = [(1, f1), (2, f2), (3, f3), (4, f4), (5, f5)]"
  by (simp add: pageFiles_def slice_def)

lemma second_page_of_seven:
  "pageFiles [f1, f2, f3, f4, f5, f6, f7] 2 5 = [(6, f6), (7, f7)]"
  by (simp add: pageFiles_def slice_def)

lemma pagination_first: "paginationRow 1 2 = [\<lparr>label = Next, callback_data = ''page:files:2''\<rparr>]"
  by (simp add: paginationRow_def toString_def natToString.simps)

lemma pagination_second: "paginationRow 2 2 = [\<lparr>label = Previous, callback_data = ''page:files:1''\<rparr>]"
  by (simp add: paginationRow_def toString_def natToString.simps)

text \<open>
  The \<^verbatim>\<open>list\<close> action and the page callback for a page of any list that is not
  empty, when the API accepts the answers: the page callback answers, hands the page
  number over as text, and the list action answers again and edits the message to
  that page. Stated for page numbers up to \<open>10^15\<close>, where the arithmetic on them is
  JavaScript's.
\<close>

lemma handleFileCallback_list_run:
  assumes "fst (getUserFiles (query_from_id q) w) = Ok fs" "fs \<noteq> []"
      and "parseInt (Some pageStr) = Some n" "n \<noteq> 0" "apiOk w (called w)"
      and "\<bar>n\<bar> \<le> 1000000000000000"
  shows "handleFileCallback cfg q [''list'', pageStr] w =
     (if apiOk w (called w + 1) then Ok () else Throw ApiError,
      w\<lparr>trace := trace w @
           [Telegram (AnswerCallbackQuery (query_id q) None),
            Telegram (EditMessageText (query_chat_id q) (query_message_id q)
              (YourFilesPage (length fs) n (totalPagesOf (length fs) 5) (pageFiles fs n 5))
              (Some (pageKeyboard (pageFiles fs n 5) n (totalPagesOf (length fs) 5))))],
        called := called w + 2\<rparr>)"
proof -
  let ?w1 = "w\<lparr>trace := trace w @ [Telegram (AnswerCallbackQuery (query_id q) None)],
               called := called w + 1\<rparr>"
  have g: "getUserFiles (query_from_id q) ?w1 = (Ok fs, ?w1)"
    using getUserFiles_world[OF assms(1)] by (simp add: getUserFiles_after_call)
  show ?thesis
    using assms(2-5) g
    by (simp add: handleFileCallback_def param_def Let_def bind_def answerCallbackQuery_def
          callMethod_run editMessageText_def)
qed

lemma handlePageCallback_files_run:
  assumes "fst (getUserFiles (query_from_id q) w) = Ok fs" "fs \<noteq> []"
      and "parseInt (Some pageStr) = Some n" "1 \<le> n" "n \<le> 1000000000000000"
      and "apiOk w (called w)" "apiOk w (called w + 1)"
  shows "handlePageCallback cfg q [''files'', pageStr] w =
     (if apiOk w (called w + 2) then Ok () else Throw ApiError,
      w\<lparr>trace := trace w @
           [Telegram (AnswerCallbackQuery (query_id q) None),
            Telegram (AnswerCallbackQuery (query_id q) None),
            Telegram (EditMessageText (query_chat_id q) (query_message_id q)
              (YourFilesPage (length fs) n (totalPagesOf (length fs) 5) (pageFiles fs n 5))
              (Some (pageKeyboard (pageFiles fs n 5) n (totalPagesOf (length fs) 5))))],
        called := called w + 3\<rparr>)"
proof -
  let ?w1 = "w\<lparr>trace := trace w @ [Telegram (AnswerCallbackQuery (query_id q) None)],
               called := called w + 1\<rparr>"
  have g: "fst (getUserFiles (query_from_id q) ?w1) = Ok fs"
    using getUserFiles_world[OF assms(1)] by (simp add: getUserFiles_after_call)
  have ok: "apiOk ?w1 (called ?w1)" using assms(7) by simp
  have reread: "parseInt (Some (toString n)) = Some n"
    using assms(4) assms(5) by (simp add: parseInt_toString)
  have nz: "n \<noteq> 0" using assms(4) by simp
  have small: "\<bar>n\<bar> \<le> 1000000000000000" using assms(4) assms(5) by simp
  have step: "handlePageCallback cfg q [''files'', pageStr] w =
      handleFileCallback cfg q [''list'', toString n] ?w1"
    using assms(3) assms(4) assms(6)
    by (simp add: handlePageCallback_def param_def Let_def bind_def
          answerCallbackQuery_def callMethod_run)
  show ?thesis
    unfolding step handleFileCallback_list_run[OF g assms(2) reread nz ok small]
    by (simp add: numeral_3_eq_3)
qed

lemma paginationRow_labels:
  "map label (paginationRow page totalPages) =
     (if 1 < page then [Previous] else []) @ (if page < totalPages then [Next] else [])"
  by (simp add: paginationRow_def)

lemma handleFiles_seven_run:
  assumes "fst (getUserFiles uid w) = Ok [f1, f2, f3, f4, f5, f6, f7]"
  shows "handleFiles \<lparr>chat_id = c, from_id = uid\<rparr> w =
     callMethod (SendMessage c
         (YourFiles 7 [(1, f1), (2, f2), (3, f3), (4, f4), (5, f5)])
         (Some [fileRow 1 f1, fileRow 2 f2, fileRow 3 f3, fileRow 4 f4, fileRow 5 f5,
                [\<lparr>label = Next, callback_data = ''page:files:2''\<rparr>]])) w"
  using getUserFiles_world[OF assms]
  by (simp add: handleFiles_def bind_def sendFileListPage_def sendMessage_def seven seven_pages
        first_page_of_seven pageKeyboard_def pagination_first fileRow_def)

lemma handleFileCallback_list_two_seven:
  assumes "fst (getUserFiles (query_from_id q) w) = Ok [f1, f2, f3, f4, f5, f6, f7]"
      and "apiOk w (called w)"
  shows "handleFileCallback cfg q [''list'', ''2''] w =
     (if apiOk w (called w + 1) then Ok () else Throw ApiError,
      w\<lparr>trace := trace w @
           [Telegram (AnswerCallbackQuery (query_id q) None),
            Telegram (EditMessageText (query_chat_id q) (query_message_id q)
              (YourFilesPage 7 2 2 [(6, f6), (7, f7)])
              (Some [fileRow 6 f6, fileRow 7 f7,
                     [\<lparr>label = Previous, callback_data = ''page:files:1''\<rparr>]]))],
        called := called w + 2\<rparr>)"
proof -
  let ?w1 = "w\<lparr>trace := trace w @ [Telegram (AnswerCallbackQuery (query_id q) None)],
               called := called w + 1\<rparr>"
  have g: "getUserFiles (query_from_id q) ?w1 = (Ok [f1, f2, f3, f4, f5, f6, f7], ?w1)"
    using getUserFiles_world[OF assms(1)] by (simp add: getUserFiles_after_call)
  show ?thesis
    using assms(2) g
    by (simp add: handleFileCallback_def param_def Let_def bind_def answerCallbackQuery_def
          callMethod_run parseInt_2 editMessageText_def seven seven_pages second_page_of_seven
          pageKeyboard_def pagination_second fileRow_def)
qed

lemma handlePageCallback_two_seven:
  assumes "fst (getUserFiles (query_from_id q) w) = Ok [f1, f2, f3, f4, f5, f6, f7]"
      and "apiOk w (called w)" and "apiOk w (called w + 1)"
  shows "handlePageCallback cfg q [''files'', ''2''] w =
     (if apiOk w (called w + 2) then Ok () else Throw ApiError,
      w\<lparr>trace := trace w @
           [Telegram (AnswerCallbackQuery (query_id q) None),
            Telegram (AnswerCallbackQuery (query_id q) None),
            Telegram (EditMessageText (query_chat_id q) (query_message_id q)
              (YourFilesPage 7 2 2 [(6, f6), (7, f7)])
              (Some [fileRow 6 f6, fileRow 7 f7,
                     [\<lparr>label = Previous, callback_data = ''page:files:1''\<rparr>]]))],
        called := called w + 3\<rparr>)"
proof -
  let ?w1 = "w\<lparr>trace := trace w @ [Telegram (AnswerCallbackQuery (query_id q) None)],
               called := called w + 1\<rparr>"
  have g: "fst (getUserFiles (query_from_id q) ?w1) = Ok [f1, f2, f3, f4, f5, f6, f7]"
    using getUserFiles_world[OF assms(1)] by (simp add: getUserFiles_after_call)
  have ok: "apiOk ?w1 (called ?w1)" using assms(3) by simp
  have step: "handlePageCallback cfg q [''files'', ''2''] w =
      handleFileCallback cfg q [''list'', ''2''] ?w1"
    using assms(2)
    by (simp add: handlePageCallback_def param_def Let_def parseInt_2 toString_2 bind_def
          answerCallbackQuery_def callMethod_run)
  show ?thesis
    unfolding step handleFileCallback_list_two_seven[OF g ok]
    by (simp add: numeral_3_eq_3)
qed

lemma sevenFilesWorld_list:
  "fst (getUserFiles ''2000'' sevenFilesWorld) =
     Ok [sampleFile ''f1'' ''2000'' 0, sampleFile ''f2'' ''2000'' 0, sampleFile ''f3'' ''2000'' 0,
         sampleFile ''f4'' ''2000'' 0, sampleFile ''f5'' ''2000'' 0, sampleFile ''f6'' ''2000'' 0,
         sampleFile ''f7'' ''2000'' 0]"
  by (simp add: getUserFiles_run orEmpty_def List.map_filter_simps sevenFilesWorld_def
        emptyWorld_def)

lemma getUserFiles_other_api:
  "fst (getUserFiles uid (w\<lparr>apiOk := a\<rparr>)) = fst (getUserFiles uid w)"
  by (simp add: getUserFiles_run)

text \<open>
  C8 as stated fails in its second half. The user has seven files, but the callback
  \<^verbatim>\<open>page:files:2\<close> does not render page 2 when the API refuses an answer to the
  callback query: the handler throws after its answers and never edits the message,
  be it the second answer that is refused or the first.
\<close>

theorem page_two_not_rendered:
  "fst (getUserFiles (query_from_id query0) secondCallRefusedWorld) =
     Ok [sampleFile ''f1'' ''2000'' 0, sampleFile ''f2'' ''2000'' 0, sampleFile ''f3'' ''2000'' 0,
         sampleFile ''f4'' ''2000'' 0, sampleFile ''f5'' ''2000'' 0, sampleFile ''f6'' ''2000'' 0,
         sampleFile ''f7'' ''2000'' 0]
 \<and> handlePageCallback cfg0 query0 [''files'', ''2''] secondCallRefusedWorld =
     (Throw ApiError,
      secondCallRefusedWorld\<lparr>trace := [Telegram (AnswerCallbackQuery ''q1'' None),
                                       Telegram (AnswerCallbackQuery ''q1'' None)],
                             called := 2\<rparr>)
 \<and> handlePageCallback cfg0 query0 [''files'', ''2''] unreachableApiWorld =
     (Throw ApiError,
      unreachableApiWorld\<lparr>trace := [Telegram (AnswerCallbackQuery ''q1'' None)],
                          called := 1\<rparr>)"
proof -
  have l: "fst (getUserFiles (query_from_id query0) secondCallRefusedWorld) =
     Ok [sampleFile ''f1'' ''2000'' 0, sampleFile ''f2'' ''2000'' 0, sampleFile ''f3'' ''2000'' 0,
         sampleFile ''f4'' ''2000'' 0, sampleFile ''f5'' ''2000'' 0, sampleFile ''f6'' ''2000'' 0,
         sampleFile ''f7'' ''2000'' 0]"
    unfolding secondCallRefusedWorld_def getUserFiles_other_api
    using sevenFilesWorld_list by (simp add: query0_def)
  have second: "handlePageCallback cfg0 query0 [''files'', ''2''] secondCallRefusedWorld =
     (Throw ApiError,
      secondCallRefusedWorld\<lparr>trace := [Telegram (AnswerCallbackQuery ''q1'' None),
                                       Telegram (AnswerCallbackQuery ''q1'' None)],
                             called := 2\<rparr>)"
    by (simp add: handlePageCallback_def handleFileCallback_def param_def Let_def parseInt_2
          toString_2 bind_def answerCallbackQuery_def callMethod_run query0_def
          secondCallRefusedWorld_def sevenFilesWorld_def emptyWorld_def)
  have first: "handlePageCallback cfg0 query0 [''files'', ''2''] unreachableApiWorld =
     (Throw ApiError,
      unreachableApiWorld\<lparr>trace := [Telegram (AnswerCallbackQuery ''q1'' None)],
                          called := 1\<rparr>)"
    by (simp add: handlePageCallback_def param_def Let_def parseInt_2
          bind_def answerCallbackQuery_def callMethod_run query0_def
          unreachableApiWorld_def sevenFilesWorld_def emptyWorld_def)
  show ?thesis using l second first by simp
qed

text \<open>
  C8 as amended. Let the user's list resolve to exactly seven files. \<^verbatim>\<open>/files\<close> makes
  one API call: a message with the files numbered 1 to 5, their share and delete
  buttons, and a last row holding the "next" button for page 2 and no "previous"
  button. The callback of that button, \<^verbatim>\<open>page:files:2\<close>, from the same user, provided
  the API accepts the answers to the callback query that the handler sends first,
  edits the message to the files numbered 6 and 7, their buttons, and a last row
  holding the "previous" button for page 1 and no "next" button.
\<close>

theorem files_seven_two_pages:
  assumes "fst (getUserFiles uid w) = Ok [f1, f2, f3, f4, f5, f6, f7]"
  shows "handleFiles \<lparr>chat_id = c, from_id = uid\<rparr> w =
           (if apiOk w (called w) then Ok () else Throw ApiError,
            w\<lparr>trace := trace w @
                 [Telegram (SendMessage c
                    (YourFiles 7 [(1, f1), (2, f2), (3, f3), (4, f4), (5, f5)])
                    (Some [fileRow 1 f1, fileRow 2 f2, fileRow 3 f3, fileRow 4 f4, fileRow 5 f5,
                           [\<lparr>label = Next, callback_data = ''page:files:2''\<rparr>]]))],
              called := called w + 1\<rparr>)
       \<and> (\<forall>q. query_from_id q = uid \<and> apiOk w (called w) \<and> apiOk w (called w + 1) \<longrightarrow>
            handlePageCallback cfg q [''files'', ''2''] w =
              (if apiOk w (called w + 2) then Ok () else Throw ApiError,
               w\<lparr>trace := trace w @
                    [Telegram (AnswerCallbackQuery (query_id q) None),
                     Telegram (AnswerCallbackQuery (query_id q) None),
                     Telegram (EditMessageText (query_chat_id q) (query_message_id q)
                       (YourFilesPage 7 2 2 [(6, f6), (7, f7)])
                       (Some [fileRow 6 f6, fileRow 7 f7,
                              [\<lparr>label = Previous, callback_data = ''page:files:1''\<rparr>]]))],
                 called := called w + 3\<rparr>))"
proof (intro conjI allI impI)
  show "handleFiles \<lparr>chat_id = c, from_id = uid\<rparr> w =
           (if apiOk w (called w) then Ok () else Throw ApiError,
            w\<lparr>trace := trace w @
                 [Telegram (SendMessage c
                    (YourFiles 7 [(1, f1), (2, f2), (3, f3), (4, f4), (5, f5)])
                    (Some [fileRow 1 f1, fileRow 2 f2, fileRow 3 f3, fileRow 4 f4, fileRow 5 f5,
                           [\<lparr>label = Next, callback_data = ''page:files:2''\<rparr>]]))],
              called := called w + 1\<rparr>)"
    unfolding handleFiles_seven_run[OF assms] by (simp add: callMethod_run)
next
  fix q :: callbackQuery
  assume a: "query_from_id q = uid \<and> apiOk w (called w) \<and> apiOk w (called w + 1)"
  then have g: "fst (getUserFiles (query_from_id q) w) = Ok [f1, f2, f3, f4, f5, f6, f7]"
    using assms by simp
  show "handlePageCallback cfg q [''files'', ''2''] w =
              (if apiOk w (called w + 2) then Ok () else Throw ApiError,
               w\<lparr>trace := trace w @
                    [Telegram (AnswerCallbackQuery (query_id q) None),
                     Telegram (AnswerCallbackQuery (query_id q) None),
                     Telegram (EditMessageText (query_chat_id q) (query_message_id q)
                       (YourFilesPage 7 2 2 [(6, f6), (7, f7)])
                       (Some [fileRow 6 f6, fileRow 7 f7,
                              [\<lparr>label = Previous, callback_data = ''page:files:1''\<rparr>]]))],
                 called := called w + 3\<rparr>)"
    using handlePageCallback_two_seven[OF g] a by blast
qed

theorem files_seven_two_pages_witness:
  "trace (snd (handleFiles message0 sevenFilesWorld)) =
     [Telegram (SendMessage 2000
        (YourFiles 7 [(1, sampleFile ''f1'' ''2000'' 0), (2, sampleFile ''f2'' ''2000'' 0),
                      (3, sampleFile ''f3'' ''2000'' 0), (4, sampleFile ''f4'' ''2000'' 0),
                      (5, sampleFile ''f5'' ''2000'' 0)])
        (Some [fileRow 1 (sampleFile ''f1'' ''2000'' 0), fileRow 2 (sampleFile ''f2'' ''2000'' 0),
               fileRow 3 (sampleFile ''f3'' ''2000'' 0), fileRow 4 (sampleFile ''f4'' ''2000'' 0),
               fileRow 5 (sampleFile ''f5'' ''2000'' 0),
               [\<lparr>label = Next, callback_data = ''page:files:2''\<rparr>]]))]
 \<and> trace (snd (handlePageCallback cfg0 query0 [''files'', ''2''] sevenFilesWorld)) =
     [Telegram (AnswerCallbackQuery ''q1'' None),
      Telegram (AnswerCallbackQuery ''q1'' None),
      Telegram (EditMessageText 2000 77
        (YourFilesPage 7 2 2 [(6, sampleFile ''f6'' ''2000'' 0), (7, sampleFile ''f7'' ''2000'' 0)])
        (Some [fileRow 6 (sampleFile ''f6'' ''2000'' 0), fileRow 7 (sampleFile ''f7'' ''2000'' 0),
               [\<lparr>label = Previous, callback_data = ''page:files:1''\<rparr>]]))]"
proof -
  have q: "query_from_id query0 = ''2000'' \<and> apiOk sevenFilesWorld (called sevenFilesWorld)
      \<and> apiOk sevenFilesWorld (called sevenFilesWorld + 1)"
    by (simp add: query0_def sevenFilesWorld_def emptyWorld_def)
  have m: "message0 = \<lparr>chat_id = 2000, from_id = ''2000''\<rparr>" by (simp add: message0_def)
  have t: "trace sevenFilesWorld = []" by (simp add: sevenFilesWorld_def emptyWorld_def)
  note both = files_seven_two_pages[OF sevenFilesWorld_list, of 2000 cfg0]
  have first: "trace (snd (handleFiles message0 sevenFilesWorld)) =
     [Telegram (SendMessage 2000
        (YourFiles 7 [(1, sampleFile ''f1'' ''2000'' 0), (2, sampleFile ''f2'' ''2000'' 0),
                      (3, sampleFile ''f3'' ''2000'' 0), (4, sampleFile ''f4'' ''2000'' 0),
                      (5, sampleFile ''f5'' ''2000'' 0)])
        (Some [fileRow 1 (sampleFile ''f1'' ''2000'' 0), fileRow 2 (sampleFile ''f2'' ''2000'' 0),
               fileRow 3 (sampleFile ''f3'' ''2000'' 0), fileRow 4 (sampleFile ''f4'' ''2000'' 0),
               fileRow 5 (sampleFile ''f5'' ''2000'' 0),
               [\<lparr>label = Next, callback_data = ''page:files:2''\<rparr>]]))]"
    unfolding m conjunct1[OF both] by (simp add: t)
  have second: "handlePageCallback cfg0 query0 [''files'', ''2''] sevenFilesWorld =
              (if apiOk sevenFilesWorld (called sevenFilesWorld + 2) then Ok () else Throw ApiError,
               sevenFilesWorld\<lparr>trace := trace sevenFilesWorld @
                    [Telegram (AnswerCallbackQuery (query_id query0) None),
                     Telegram (AnswerCallbackQuery (query_id query0) None),
                     Telegram (EditMessageText (query_chat_id query0) (query_message_id query0)
                       (YourFilesPage 7 2 2 [(6, sampleFile ''f6'' ''2000'' 0), (7, sampleFile ''f7'' ''2000'' 0)])
                       (Some [fileRow 6 (sampleFile ''f6'' ''2000'' 0), fileRow 7 (sampleFile ''f7'' ''2000'' 0),
                              [\<lparr>label = Previous, callback_data = ''page:files:1''\<rparr>]]))],
                 called := called sevenFilesWorld + 3\<rparr>)"
    using conjunct2[OF both] q by blast
  show ?thesis unfolding second using first by (simp add: t query0_def)
qed

section \<open>Answering callback queries\<close>

lemma answersTo_Nil: "answersTo q [] = 0"
  by (simp add: answersTo_def)

lemma answersTo_Cons: "answersTo q (e # es) = (if isAnswerTo q e then 1 else 0) + answersTo q es"
  by (simp add: answersTo_def)

lemma answersTo_append: "answersTo q (xs @ ys) = answersTo q xs + answersTo q ys"
  by (simp add: answersTo_def)

lemmas answersTo_simps = answersTo_Nil answersTo_Cons answersTo_append isAnswerTo_def

text \<open>
  The handlers of \<^verbatim>\<open>category\<close>, \<^verbatim>\<open>delete\<close> and \<^verbatim>\<open>confirm\<close>, and the \<^verbatim>\<open>share\<close> and
  \<^verbatim>\<open>list\<close> actions of \<^verbatim>\<open>file\<close>, call \<^verbatim>\<open>answerCallbackQuery\<close> exactly once for the query,
  in every world and whatever the API answers.
\<close>

lemma handleFileCallback_list_answers_once:
  "answersTo (query_id q) (trace (snd (handleFileCallback cfg q (''list'' # rest) w))) =
     answersTo (query_id q) (trace w) + 1"
  by (simp add: handleFileCallback_def Let_def param_def bind_def answerCallbackQuery_def
        callMethod_run getUserFiles_run editMessageText_def answersTo_simps)

lemma handleFileCallback_share_answers_once:
  "answersTo (query_id q) (trace (snd (handleFileCallback cfg q (''share'' # rest) w))) =
     answersTo (query_id q) (trace w) + 1"
  by (simp add: handleFileCallback_def Let_def param_def bind_def answerCallbackQuery_def
        callMethod_run getFile_def db_get_file_def editMessageText_def sendMessage_def
        answersTo_simps split: option.splits)

lemma handleDeleteCallback_answers_once:
  "answersTo (query_id q) (trace (snd (handleDeleteCallback cfg q ps w))) =
     answersTo (query_id q) (trace w) + 1"
  by (simp add: handleDeleteCallback_def Let_def bind_def answerCallbackQuery_def callMethod_run
        getFile_def db_get_file_def editMessageText_def sendMessage_def answersTo_simps
        split: option.splits)

lemma handleConfirmCallback_answers_once:
  "answersTo (query_id q) (trace (snd (handleConfirmCallback cfg q ps w))) =
     answersTo (query_id q) (trace w) + 1"
  by (simp add: handleConfirmCallback_def Let_def bind_def answerCallbackQuery_def callMethod_run
        deleteFile_def getFile_def db_defs emit_def ret_def editMessageText_def answersTo_simps
        split: option.splits)

lemma handleCategoryCallback_answers_once:
  "answersTo (query_id q) (trace (snd (handleCategoryCallback cfg q ps w))) =
     answersTo (query_id q) (trace w) + 1"
  by (simp add: handleCategoryCallback_def Let_def bind_def answerCallbackQuery_def callMethod_run
        getSession_def setState_def updateSession_def saveFile_def
        db_defs prog_defs editMessageText_def answersTo_simps
        split: option.splits)

text \<open>
  The \<^verbatim>\<open>delete\<close> action of \<^verbatim>\<open>file\<close> answers and then calls \<^verbatim>\<open>handleDeleteCallback\<close>,
  which answers again; \<^verbatim>\<open>handlePageCallback\<close> with a valid page answers and then calls
  \<^verbatim>\<open>handleFileCallback\<close>, which answers again (or answers "Unknown list type."): two
  calls for one query, as soon as the API accepts the first.
\<close>

lemma handleFileCallback_delete_answers_twice:
  assumes "apiOk w (called w)"
  shows "answersTo (query_id q) (trace (snd (handleFileCallback cfg q (''delete'' # rest) w))) =
     answersTo (query_id q) (trace w) + 2"
proof -
  let ?w1 = "w\<lparr>trace := trace w @ [Telegram (AnswerCallbackQuery (query_id q) None)],
               called := called w + 1\<rparr>"
  have step: "handleFileCallback cfg q (''delete'' # rest) w =
      handleDeleteCallback cfg q (case param (''delete'' # rest) 1 of None \<Rightarrow> [] | Some x \<Rightarrow> [x]) ?w1"
    using assms
    by (simp add: handleFileCallback_def Let_def param_def bind_def answerCallbackQuery_def
          callMethod_run)
  show ?thesis
    unfolding step handleDeleteCallback_answers_once
    by (simp add: answersTo_simps)
qed

lemma handlePageCallback_answers_twice:
  assumes "parseInt (param ps 1) = Some n" "1 \<le> n" "apiOk w (called w)"
  shows "answersTo (query_id q) (trace (snd (handlePageCallback cfg q ps w))) =
     answersTo (query_id q) (trace w) + 2"
proof -
  let ?w1 = "w\<lparr>trace := trace w @ [Telegram (AnswerCallbackQuery (query_id q) None)],
               called := called w + 1\<rparr>"
  have step: "handlePageCallback cfg q ps w =
      (if param ps 0 = Some ''files'' then handleFileCallback cfg q [''list'', toString n] ?w1
       else answerCallbackQuery (query_id q) (Some ''Unknown list type.'') ?w1)"
    using assms
    by (simp add: handlePageCallback_def Let_def bind_def answerCallbackQuery_def callMethod_run)
  show ?thesis
    unfolding step
    by (simp add: handleFileCallback_list_answers_once answerCallbackQuery_def callMethod_run
          answersTo_simps)
qed

text \<open>
  C3. Every handler of a recognized action should call \<^verbatim>\<open>answerCallbackQuery\<close> for
  the query exactly once. The handler of \<^verbatim>\<open>page\<close> does not: for the data
  \<^verbatim>\<open>page:files:2\<close> of a pagination button the dispatcher calls \<^verbatim>\<open>handlePageCallback\<close>
  with the parameters \<^verbatim>\<open>files\<close> and \<^verbatim>\<open>2\<close>, and the run calls \<^verbatim>\<open>answerCallbackQuery\<close>
  for the query twice.
\<close>

theorem page_callback_answers_twice:
  "callbackHandlers cfg0 ''page'' = Handler (handlePageCallback cfg0)
 \<and> answersTo (query_id query0)
      (trace (snd (handlePageCallback cfg0 query0 [''files'', ''2''] sevenFilesWorld))) = 2"
proof -
  have p: "parseInt (param [''files'', ''2''] 1) = Some 2" by (simp add: param_def parseInt_2)
  have ok: "apiOk sevenFilesWorld (called sevenFilesWorld)"
    by (simp add: sevenFilesWorld_def emptyWorld_def)
  have t: "trace sevenFilesWorld = []" by (simp add: sevenFilesWorld_def emptyWorld_def)
  show ?thesis
    using handlePageCallback_answers_twice[OF p _ ok, of query0 cfg0]
    by (simp add: callbackHandlers_def t answersTo_Nil)
qed

section \<open>The administrator's statistics\<close>

lemma slice_from_0: "0 \<le> n \<Longrightarrow> slice xs 0 n = take (nat n) xs"
  by (simp add: slice_def Let_def min_def)

lemma collectPopular_run:
  "collectPopular ks acc w =
     (Ok (acc @ filter (\<lambda>f. accessCount f \<noteq> 0) (List.map_filter (\<lambda>k. map_of (files w) k) ks)), w)"
proof (induction ks arbitrary: acc)
  case Nil
  then show ?case by (simp add: ret_def List.map_filter_simps)
next
  case (Cons k ks)
  then show ?case
    by (simp add: bind_def db_get_file_def List.map_filter_simps split: option.splits)
qed

lemma map_filter_map_of_listed:
  assumes "distinct (map fst al)" "set xs \<subseteq> set al"
  shows "List.map_filter (\<lambda>k. map_of al k) (map fst xs) = map snd xs"
  using assms(2)
proof (induction xs)
  case Nil
  then show ?case by (simp add: List.map_filter_simps)
next
  case (Cons x xs)
  then have "map_of al (fst x) = Some (snd x)"
    using assms(1) by (cases x) (simp add: map_of_is_SomeI)
  then show ?case using Cons by (simp add: List.map_filter_simps)
qed

lemma listed_records:
  assumes "distinct (map fst al)"
  shows "List.map_filter (\<lambda>k. map_of al k) (take n (map fst al)) = map snd (take n al)"
  using map_filter_map_of_listed[OF assms, of "take n al"]
  by (simp add: take_map set_take_subset)

lemma handleStats_admin_run:
  assumes "isAdmin cfg (from_id msg)" "distinct (map fst (files w))"
  shows "handleStats cfg msg w =
     (if apiOk w (called w) then Ok () else Throw ApiError,
      w\<lparr>trace := trace w @
           [Telegram (SendMessage (chat_id msg)
              (BotStatistics (length (users (statsOf w))) (sum_list (map snd (actions (statsOf w))))
                 (top5 (filter (\<lambda>f. accessCount f \<noteq> 0) (map snd (take 10 (files w))))))
              None)],
        called := called w + 1\<rparr>)"
  using assms(1)
  by (simp add: handleStats_def getStats_def db_get_stats_def db_listKeys_file_def bind_def ret_def
        Let_def collectPopular_run slice_from_0 listed_records[OF assms(2)] sendMessage_def
        callMethod_run top5_def statsOf_def split: option.splits)

text \<open>
  What \<open>top5\<close> of a list is: at most five of its records, largest count first, none
  of the records left out has a larger count than one taken, and records with the
  same count keep the order they had in the list.
\<close>

lemma top5_length: "length (top5 fs) \<le> 5"
  by (simp add: top5_def)

lemma sort_by_count_descending:
  "sorted_wrt (\<lambda>a b. accessCount b \<le> accessCount a) (sort_key (\<lambda>f. - int (accessCount f)) fs)"
proof -
  have "sorted (map (\<lambda>f. - int (accessCount f)) (sort_key (\<lambda>f. - int (accessCount f)) fs))"
    by (rule sorted_sort_key)
  then show ?thesis by (simp add: sorted_wrt_map sorted_wrt_iff_nth_less)
qed

lemma top5_descending: "sorted_wrt (\<lambda>a b. accessCount b \<le> accessCount a) (top5 fs)"
  unfolding top5_def using sort_by_count_descending by (rule sorted_wrt_take)

lemma top5_best:
  "\<exists>rest. mset (top5 fs @ rest) = mset fs
     \<and> (\<forall>x \<in> set (top5 fs). \<forall>y \<in> set rest. accessCount y \<le> accessCount x)"
proof -
  let ?s = "sort_key (\<lambda>f. - int (accessCount f)) fs"
  have "sorted_wrt (\<lambda>a b. accessCount b \<le> accessCount a) (take 5 ?s @ drop 5 ?s)"
    using sort_by_count_descending[of fs] by simp
  then have "\<forall>x \<in> set (take 5 ?s). \<forall>y \<in> set (drop 5 ?s). accessCount y \<le> accessCount x"
    unfolding sorted_wrt_append by blast
  moreover have "mset (take 5 ?s @ drop 5 ?s) = mset fs" by simp
  ultimately show ?thesis unfolding top5_def by blast
qed

lemma sort_by_count_stable:
  "filter (\<lambda>f. accessCount f = n) (sort_key (\<lambda>f. - int (accessCount f)) fs) =
   filter (\<lambda>f. accessCount f = n) fs"
  using sort_key_stable[of "\<lambda>f. - int (accessCount f)" "- int n" fs] by simp

lemma elevenFilesWorld_top5:
  "top5 (map snd (files elevenFilesWorld)) =
     [sampleFile ''f11'' ''2000'' 11, sampleFile ''f10'' ''2000'' 10, sampleFile ''f09'' ''2000'' 9,
      sampleFile ''f08'' ''2000'' 8, sampleFile ''f07'' ''2000'' 7]"
  by (simp add: top5_def elevenFilesWorld_def emptyWorld_def sampleFile_def)

lemma elevenFilesWorld_first_ten_top5:
  "top5 (filter (\<lambda>f. accessCount f \<noteq> 0) (map snd (take 10 (files elevenFilesWorld)))) =
     [sampleFile ''f10'' ''2000'' 10, sampleFile ''f09'' ''2000'' 9, sampleFile ''f08'' ''2000'' 8,
      sampleFile ''f07'' ''2000'' 7, sampleFile ''f06'' ''2000'' 6]"
  by (simp add: top5_def elevenFilesWorld_def emptyWorld_def sampleFile_def)

lemma elevenFilesWorld_admin:
  "isAdmin cfg0 (from_id adminMessage) \<and> distinct (map fst (files elevenFilesWorld))"
  by (simp add: isAdmin_def cfg0_def adminMessage_def elevenFilesWorld_def emptyWorld_def)

text \<open>
  C2 as stated fails. Eleven files are stored, the eleventh in listing order with
  the largest count: the most-accessed five over all stored records start with it,
  but the report of \<^verbatim>\<open>/stats\<close> to the administrator is made from the first ten keys
  and does not show it.
\<close>

theorem stats_misses_eleventh_file:
  "trace (snd (handleStats cfg0 adminMessage elevenFilesWorld)) =
     [Telegram (SendMessage 1000
        (BotStatistics 2 7
           [sampleFile ''f10'' ''2000'' 10, sampleFile ''f09'' ''2000'' 9,
            sampleFile ''f08'' ''2000'' 8, sampleFile ''f07'' ''2000'' 7,
            sampleFile ''f06'' ''2000'' 6])
        None)]
 \<and> top5 (map snd (files elevenFilesWorld)) =
     [sampleFile ''f11'' ''2000'' 11, sampleFile ''f10'' ''2000'' 10, sampleFile ''f09'' ''2000'' 9,
      sampleFile ''f08'' ''2000'' 8, sampleFile ''f07'' ''2000'' 7]"
proof -
  have a: "isAdmin cfg0 (from_id adminMessage)" and d: "distinct (map fst (files elevenFilesWorld))"
    using elevenFilesWorld_admin by simp_all
  have "trace (snd (handleStats cfg0 adminMessage elevenFilesWorld)) =
     [Telegram (SendMessage 1000
        (BotStatistics 2 7
           (top5 (filter (\<lambda>f. accessCount f \<noteq> 0) (map snd (take 10 (files elevenFilesWorld))))))
        None)]"
    unfolding handleStats_admin_run[OF a d]
    by (simp add: statsOf_def adminMessage_def elevenFilesWorld_def emptyWorld_def)
  then show ?thesis
    unfolding elevenFilesWorld_first_ten_top5 using elevenFilesWorld_top5 by simp
qed

text \<open>
  C2 as amended. When every key is listed once, \<^verbatim>\<open>/stats\<close> from an administrator
  makes one API call: a message with the number of users and the sum of the action
  counts of the statistics document, and the top five, by count descending and ties
  in listing order, of those records under the first ten listed keys whose count is
  not zero. With distinct user entries the number of users is the number of
  different users.
\<close>

theorem handleStats_admin:
  assumes "isAdmin cfg (from_id msg)" "distinct (map fst (files w))"
  shows "handleStats cfg msg w =
     (if apiOk w (called w) then Ok () else Throw ApiError,
      w\<lparr>trace := trace w @
           [Telegram (SendMessage (chat_id msg)
              (BotStatistics (length (users (statsOf w))) (sum_list (map snd (actions (statsOf w))))
                 (top5 (filter (\<lambda>f. accessCount f \<noteq> 0) (map snd (take 10 (files w))))))
              None)],
        called := called w + 1\<rparr>)
    \<and> (distinct (map fst (users (statsOf w))) \<longrightarrow>
         length (users (statsOf w)) = card (fst ` set (users (statsOf w))))"
proof
  show "handleStats cfg msg w =
     (if apiOk w (called w) then Ok () else Throw ApiError,
      w\<lparr>trace := trace w @
           [Telegram (SendMessage (chat_id msg)
              (BotStatistics (length (users (statsOf w))) (sum_list (map snd (actions (statsOf w))))
                 (top5 (filter (\<lambda>f. accessCount f \<noteq> 0) (map snd (take 10 (files w))))))
              None)],
        called := called w + 1\<rparr>)"
    by (rule handleStats_admin_run[OF assms])
  show "distinct (map fst (users (statsOf w))) \<longrightarrow>
         length (users (statsOf w)) = card (fst ` set (users (statsOf w)))"
    using distinct_card[of "map fst (users (statsOf w))"] by auto
qed

theorem handleStats_admin_witness:
  "isAdmin cfg0 (from_id adminMessage) \<and> distinct (map fst (files elevenFilesWorld))
 \<and> handleStats cfg0 adminMessage elevenFilesWorld =
     (Ok (),
      elevenFilesWorld\<lparr>trace :=
           [Telegram (SendMessage 1000
              (BotStatistics 2 7
                 [sampleFile ''f10'' ''2000'' 10, sampleFile ''f09'' ''2000'' 9,
                  sampleFile ''f08'' ''2000'' 8, sampleFile ''f07'' ''2000'' 7,
                  sampleFile ''f06'' ''2000'' 6])
              None)],
        called := 1\<rparr>)"
proof -
  have a: "isAdmin cfg0 (from_id adminMessage)" and d: "distinct (map fst (files elevenFilesWorld))"
    using elevenFilesWorld_admin by simp_all
  have "handleStats cfg0 adminMessage elevenFilesWorld =
     (Ok (),
      elevenFilesWorld\<lparr>trace :=
           [Telegram (SendMessage 1000
              (BotStatistics 2 7
                 (top5 (filter (\<lambda>f. accessCount f \<noteq> 0) (map snd (take 10 (files elevenFilesWorld))))))
              None)],
        called := 1\<rparr>)"
    using conjunct1[OF handleStats_admin[OF a d]]
    by (simp add: statsOf_def adminMessage_def elevenFilesWorld_def emptyWorld_def)
  then show ?thesis
    unfolding elevenFilesWorld_first_ten_top5 using a d by simp
qed

end
